theory Spec2Isabelle
  imports Main "HOL-Library.Word" "HOL-Library.AList"
begin

section \<open>The car-record request handler of \<open>lambda/lambda.go\<close>\<close>

text \<open>
  The handler of \<open>lambda.go\<close> maps an HTTP request to one call of a DynamoDB client and
  maps the answer back to an HTTP response. The embedding below follows the three
  functions \<open>handler\<close>, \<open>handleGet\<close> and \<open>handlePost\<close> branch by branch.

  Conventions of the embedding:
  \<^item> a Go \<open>string\<close> is a \<open>string\<close> (its UTF-8 bytes);
  \<^item> Go's \<open>int\<close> is the 64-bit two's-complement integer of the Lambda runtime, a
    \<open>64 word\<close> read by \<open>sint\<close>;
  \<^item> a Go map is a partial function; reading an absent key gives the zero value of
    the element type, as Go does;
  \<^item> a JSON text is represented by its syntax tree: the scanner of \<open>encoding/json\<close>
    (white space, escapes, the nesting limit) lies below this level. A request body is
    \<open>None\<close> when the text is not well-formed JSON and \<open>Some j\<close> otherwise; a response
    body is either a plain text or the text \<open>json.Marshal\<close> renders for a tree;
  \<^item> a failed unchecked type assertion is a run-time panic: the handler returns
    \<open>Inl TypeAssertionPanic\<close> and no response;
  \<^item> the global client \<open>db\<close> is a parameter: a record of the three operations used,
    each a function on the state of the storage service; every call is appended
    to a trace, so that "no storage operation" is "the trace did not grow";
  \<^item> the two \<open>fmt.Print\<close> calls of \<open>handler\<close> write to the log only and are left out.
\<close>

subsection \<open>Records and attribute values\<close>

type_synonym go_int = "64 word"

record Car =
  ID :: string
  Make :: string
  Model :: string
  Year :: go_int

text \<open>The zero value of \<open>Car\<close>, the content of \<open>var item Car\<close>.\<close>

definition zero_Car :: Car where
  "zero_Car = \<lparr>ID = [], Make = [], Model = [], Year = 0\<rparr>"

text \<open>
  The tagged union \<open>types.AttributeValue\<close> of the DynamoDB SDK, one constructor for
  each member type. A number is carried as its decimal text.
\<close>

datatype AttributeValue =
    AttributeValueMemberS string
  | AttributeValueMemberN string
  | AttributeValueMemberB string
  | AttributeValueMemberBOOL bool
  | AttributeValueMemberNULL bool
  | AttributeValueMemberL "AttributeValue list"
  | AttributeValueMemberM "(string \<times> AttributeValue) list"
  | AttributeValueMemberSS "string list"
  | AttributeValueMemberNS "string list"
  | AttributeValueMemberBS "string list"

type_synonym item = "string \<rightharpoonup> AttributeValue"

subsection \<open>\<open>strconv\<close> and \<open>fmt\<close>\<close>

datatype NumError = ErrSyntax | ErrRange

definition is_digit :: "char \<Rightarrow> bool" where
  "is_digit c = (48 \<le> (of_char c :: nat) \<and> (of_char c :: nat) \<le> 57)"

definition digit_val :: "char \<Rightarrow> nat" where
  "digit_val c = of_char c - 48"

definition maxUint64 :: nat where
  "maxUint64 = 2 ^ 64 - 1"

text \<open>
  The loop of \<open>strconv.ParseUint\<close> at base 10 and bit size 64: a byte that is not a
  digit is a syntax error; \<open>n \<ge> cutoff\<close> (then \<open>n * 10\<close> overflows) or a sum beyond
  the largest value is a range error, returned with the largest value.
\<close>

fun ParseUint_loop :: "string \<Rightarrow> nat \<Rightarrow> nat \<times> NumError option" where
  "ParseUint_loop [] n = (n, None)"
| "ParseUint_loop (c # cs) n =
     (if \<not> is_digit c then (0, Some ErrSyntax)
      else if n \<ge> maxUint64 div 10 + 1 then (maxUint64, Some ErrRange)
      else if n * 10 + digit_val c > maxUint64 then (maxUint64, Some ErrRange)
      else ParseUint_loop cs (n * 10 + digit_val c))"

definition ParseUint :: "string \<Rightarrow> nat \<times> NumError option" where
  "ParseUint s = (if s = [] then (0, Some ErrSyntax) else ParseUint_loop s 0)"

text \<open>
  \<open>strconv.ParseInt(s, 10, 64)\<close>: an optional sign, then \<open>ParseUint\<close>; a syntax error
  gives 0, a magnitude out of range gives the nearest bound together with the range
  error.
\<close>

definition ParseInt :: "string \<Rightarrow> go_int \<times> NumError option" where
  "ParseInt s =
     (if s = [] then (0, Some ErrSyntax)
      else
        let neg = (hd s = CHR ''-'');
            s1 = (if hd s = CHR ''+'' \<or> hd s = CHR ''-'' then tl s else s);
            (un, err) = ParseUint s1
        in if err = Some ErrSyntax then (0, err)
           else if \<not> neg \<and> un \<ge> 2 ^ 63 then (word_of_nat (2 ^ 63 - 1), Some ErrRange)
           else if neg \<and> un > 2 ^ 63 then (- word_of_nat (2 ^ 63), Some ErrRange)
           else if neg then (- word_of_nat un, None)
           else (word_of_nat un, None))"

text \<open>
  \<open>strconv.Atoi\<close>: its fast path (fewer than 19 bytes) computes what \<open>ParseInt\<close>
  computes on such a text, and every other text goes to \<open>ParseInt(s, 10, 0)\<close>.
\<close>

definition Atoi :: "string \<Rightarrow> go_int \<times> NumError option" where
  "Atoi s = ParseInt s"

text \<open>The decimal digits of a natural number, most significant first.\<close>

fun decimal :: "nat \<Rightarrow> string" where
  "decimal n =
     (if n < 10 then [char_of (48 + n)]
      else decimal (n div 10) @ [char_of (48 + n mod 10)])"

declare decimal.simps [simp del]

text \<open>\<open>fmt.Sprintf("%d", y)\<close> for an \<open>int\<close>.\<close>

definition Sprintf_d :: "go_int \<Rightarrow> string" where
  "Sprintf_d y =
     (if sint y < 0 then CHR ''-'' # decimal (nat (- sint y)) else decimal (nat (sint y)))"

subsection \<open>\<open>encoding/json\<close>: syntax trees, \<open>Marshal\<close> and \<open>Unmarshal\<close> for \<open>Car\<close>\<close>

text \<open>A number keeps its literal, the text the decoder hands to \<open>ParseInt\<close>.\<close>

datatype json =
    JNull
  | JBool bool
  | JNumber string
  | JString string
  | JArray "json list"
  | JObject "(string \<times> json) list"

datatype json_error = SyntaxError | UnmarshalTypeError

text \<open>
  \<open>json.Marshal\<close> of a \<open>Car\<close>: the four fields under their tags, in the order of the
  struct. It cannot fail for this type.
\<close>

definition Marshal_Car :: "Car \<Rightarrow> json" where
  "Marshal_Car c =
     JObject [(''id'', JString (ID c)), (''make'', JString (Make c)),
              (''model'', JString (Model c)), (''year'', JNumber (Sprintf_d (Year c)))]"

text \<open>\<open>json.Marshal\<close> of a non-nil slice \<open>[]Car\<close>: an array, \<open>[]\<close> when it is empty.\<close>

definition Marshal_Cars :: "Car list \<Rightarrow> json" where
  "Marshal_Cars cs = JArray (map Marshal_Car cs)"

text \<open>
  The decoder matches an object key to a struct field by the exact tag first and by
  the folded name otherwise. \<open>foldName\<close> maps ASCII lower case to upper case and every
  other rune to the least rune of its case-folding orbit; the only runes outside ASCII
  whose orbit holds an ASCII letter are U+212A (Kelvin sign, bytes E2 84 AA, orbit of K)
  and U+017F (long s, bytes C5 BF, orbit of S). All other bytes are kept: they fold to
  runes outside ASCII and so never make a key equal to a folded tag of \<open>Car\<close>.
\<close>

definition is_lower :: "char \<Rightarrow> bool" where
  "is_lower c = (97 \<le> (of_char c :: nat) \<and> (of_char c :: nat) \<le> 122)"

definition to_upper :: "char \<Rightarrow> char" where
  "to_upper c = (if is_lower c then char_of ((of_char c :: nat) - 32) else c)"

fun foldName :: "string \<Rightarrow> string" where
  "foldName [] = []"
| "foldName (c # cs) =
     (if c = CHR 0xE2 \<and> take 2 cs = [CHR 0x84, CHR 0xAA] then CHR ''K'' # foldName (drop 2 cs)
      else if c = CHR 0xC5 \<and> take 1 cs = [CHR 0xBF] then CHR ''S'' # foldName (drop 1 cs)
      else to_upper c # foldName cs)"

definition Car_tags :: "string list" where
  "Car_tags = [''id'', ''make'', ''model'', ''year'']"

definition find_field :: "string \<Rightarrow> string option" where
  "find_field key =
     (if key \<in> set Car_tags then Some key
      else find (\<lambda>tag. foldName tag = foldName key) Car_tags)"

text \<open>
  What a JSON value does to a field: \<open>null\<close> leaves a string or an int as it is; a
  value of the field's kind is stored; any other value is an \<open>UnmarshalTypeError\<close>.
  For an \<open>int\<close> the number's literal must be accepted by \<open>ParseInt\<close>.
\<close>

datatype 'a stored = Keep | Store 'a | Mismatch

fun decode_string :: "json \<Rightarrow> string stored" where
  "decode_string JNull = Keep"
| "decode_string (JString s) = Store s"
| "decode_string _ = Mismatch"

fun decode_int :: "json \<Rightarrow> go_int stored" where
  "decode_int JNull = Keep"
| "decode_int (JNumber lit) =
     (case ParseInt lit of (n, None) \<Rightarrow> Store n | (n, Some e) \<Rightarrow> Mismatch)"
| "decode_int _ = Mismatch"

text \<open>The decoder keeps the first error and goes on (\<open>saveError\<close>).\<close>

definition saveError :: "json_error option \<Rightarrow> json_error option" where
  "saveError e = (case e of None \<Rightarrow> Some UnmarshalTypeError | Some x \<Rightarrow> Some x)"

definition decode_member :: "string \<times> json \<Rightarrow> Car \<times> json_error option \<Rightarrow> Car \<times> json_error option" where
  "decode_member m st =
     (case find_field (fst m) of
        None \<Rightarrow> st
      | Some tag \<Rightarrow>
          if tag = ''id'' then
            (case decode_string (snd m) of
               Keep \<Rightarrow> st | Store s \<Rightarrow> ((fst st)\<lparr>ID := s\<rparr>, snd st)
             | Mismatch \<Rightarrow> (fst st, saveError (snd st)))
          else if tag = ''make'' then
            (case decode_string (snd m) of
               Keep \<Rightarrow> st | Store s \<Rightarrow> ((fst st)\<lparr>Make := s\<rparr>, snd st)
             | Mismatch \<Rightarrow> (fst st, saveError (snd st)))
          else if tag = ''model'' then
            (case decode_string (snd m) of
               Keep \<Rightarrow> st | Store s \<Rightarrow> ((fst st)\<lparr>Model := s\<rparr>, snd st)
             | Mismatch \<Rightarrow> (fst st, saveError (snd st)))
          else
            (case decode_int (snd m) of
               Keep \<Rightarrow> st | Store n \<Rightarrow> ((fst st)\<lparr>Year := n\<rparr>, snd st)
             | Mismatch \<Rightarrow> (fst st, saveError (snd st))))"

text \<open>The members of an object are decoded in the order of the text; a later one wins.\<close>

fun decode_object :: "(string \<times> json) list \<Rightarrow> Car \<times> json_error option \<Rightarrow> Car \<times> json_error option" where
  "decode_object [] st = st"
| "decode_object (m # ms) st = decode_object ms (decode_member m st)"

text \<open>
  A value decoded into a struct: \<open>null\<close> changes nothing, an object is decoded
  member by member, every other value is an \<open>UnmarshalTypeError\<close>.
\<close>

fun decode_Car :: "json \<Rightarrow> Car \<Rightarrow> Car \<times> json_error option" where
  "decode_Car JNull c = (c, None)"
| "decode_Car (JObject ms) c = decode_object ms (c, None)"
| "decode_Car _ c = (c, Some UnmarshalTypeError)"

text \<open>
  \<open>json.Unmarshal([]byte(body), &item)\<close> with \<open>item\<close> the zero \<open>Car\<close>: a text that is
  not well-formed JSON is a syntax error and leaves \<open>item\<close> untouched.
\<close>

definition Unmarshal_Car :: "json option \<Rightarrow> Car \<times> json_error option" where
  "Unmarshal_Car body =
     (case body of None \<Rightarrow> (zero_Car, Some SyntaxError) | Some j \<Rightarrow> decode_Car j zero_Car)"

subsection \<open>Requests, responses and the environment\<close>

text \<open>
  \<open>events.APIGatewayV2HTTPRequest\<close>, the fields the handler reads: the method of
  \<open>RequestContext.HTTP\<close>, the query parameters and the body (named \<open>ReqBody\<close> here, as
  the response has a field \<open>Body\<close> too).
\<close>

record APIGatewayV2HTTPRequest =
  Method :: string
  Path :: string
  QueryStringParameters :: "string \<rightharpoonup> string"
  ReqBody :: "json option"

datatype body = Plain string | Marshalled json

record APIGatewayV2HTTPResponse =
  StatusCode :: nat
  Body :: body
  Headers :: "string \<rightharpoonup> string"

definition StatusOK :: nat where "StatusOK = 200"
definition StatusCreated :: nat where "StatusCreated = 201"
definition StatusBadRequest :: nat where "StatusBadRequest = 400"
definition StatusNotFound :: nat where "StatusNotFound = 404"
definition StatusMethodNotAllowed :: nat where "StatusMethodNotAllowed = 405"
definition StatusInternalServerError :: nat where "StatusInternalServerError = 500"

text \<open>Reading a \<open>map[string]string\<close>: the empty string for an absent key.\<close>

definition lookup_string :: "(string \<rightharpoonup> string) \<Rightarrow> string \<Rightarrow> string" where
  "lookup_string m k = (case m k of None \<Rightarrow> [] | Some v \<Rightarrow> v)"

text \<open>\<open>os.Getenv\<close>: the empty string for a variable that is not set.\<close>

definition os_Getenv :: "(string \<rightharpoonup> string) \<Rightarrow> string \<Rightarrow> string" where
  "os_Getenv env k = lookup_string env k"

datatype fault = TypeAssertionPanic

type_synonym outcome = "fault + APIGatewayV2HTTPResponse"

subsection \<open>The DynamoDB client\<close>

text \<open>
  The three operations of \<open>dynamodb.Client\<close> the handler calls, over a state \<open>'s\<close> of the
  service. Each takes the table name; an error is the text of \<open>err.Error()\<close>.
  \<open>GetItem\<close> answers \<open>None\<close> for the nil \<open>Item\<close> of an absent key.
\<close>

record 's Client =
  Scan :: "string \<Rightarrow> 's \<Rightarrow> (string + item list) \<times> 's"
  GetItem :: "string \<Rightarrow> item \<Rightarrow> 's \<Rightarrow> (string + item option) \<times> 's"
  PutItem :: "string \<Rightarrow> item \<Rightarrow> 's \<Rightarrow> string option \<times> 's"

datatype call = ScanCall string | GetItemCall string item | PutItemCall string item

text \<open>The state a request runs in: the state of the service and the calls made so far.\<close>

type_synonym 's world = "'s \<times> call list"

definition db_Scan :: "'s Client \<Rightarrow> string \<Rightarrow> 's world \<Rightarrow> (string + item list) \<times> 's world" where
  "db_Scan db t w =
     (case Scan db t (fst w) of (r, s') \<Rightarrow> (r, (s', snd w @ [ScanCall t])))"

definition db_GetItem :: "'s Client \<Rightarrow> string \<Rightarrow> item \<Rightarrow> 's world \<Rightarrow> (string + item option) \<times> 's world" where
  "db_GetItem db t key w =
     (case GetItem db t key (fst w) of (r, s') \<Rightarrow> (r, (s', snd w @ [GetItemCall t key])))"

definition db_PutItem :: "'s Client \<Rightarrow> string \<Rightarrow> item \<Rightarrow> 's world \<Rightarrow> string option \<times> 's world" where
  "db_PutItem db t it w =
     (case PutItem db t it (fst w) of (r, s') \<Rightarrow> (r, (s', snd w @ [PutItemCall t it])))"

subsection \<open>The record mapper\<close>

text \<open>
  \<open>x.(*types.AttributeValueMemberS).Value\<close>, the unchecked assertion: it panics on an
  absent attribute (a nil interface) and on every other member type.
\<close>

definition assert_S :: "AttributeValue option \<Rightarrow> fault + string" where
  "assert_S a = (case a of Some (AttributeValueMemberS v) \<Rightarrow> Inr v | _ \<Rightarrow> Inl TypeAssertionPanic)"

text \<open>
  \<open>y, ok := x.(*types.AttributeValueMemberN)\<close>, the checked assertion, followed by
  \<open>year, _ = strconv.Atoi(y.Value)\<close>: \<open>None\<close> when \<open>ok\<close> is false, else the value \<open>Atoi\<close>
  returns, its error dropped.
\<close>

definition year_of :: "AttributeValue option \<Rightarrow> go_int option" where
  "year_of a = (case a of Some (AttributeValueMemberN v) \<Rightarrow> Some (fst (Atoi v)) | _ \<Rightarrow> None)"

text \<open>
  The composite literal \<open>Car{ID: ..., Make: ..., Model: ..., Year: year}\<close> of both read
  paths: the three assertions are evaluated in this order, the first failure panics.
\<close>

definition item_Car :: "item \<Rightarrow> go_int \<Rightarrow> fault + Car" where
  "item_Car it year =
     (case assert_S (it ''ID'') of Inl f \<Rightarrow> Inl f
      | Inr i \<Rightarrow>
     (case assert_S (it ''Make'') of Inl f \<Rightarrow> Inl f
      | Inr mk \<Rightarrow>
     (case assert_S (it ''Model'') of Inl f \<Rightarrow> Inl f
      | Inr md \<Rightarrow> Inr \<lparr>ID = i, Make = mk, Model = md, Year = year\<rparr>)))"

text \<open>
  The loop of the scan path over \<open>out.Items\<close>: \<open>year\<close> starts at 0 and is set only when the
  checked assertion succeeds; the car is appended to \<open>cars\<close>.
\<close>

fun scan_loop :: "item list \<Rightarrow> Car list \<Rightarrow> fault + Car list" where
  "scan_loop [] cars = Inr cars"
| "scan_loop (it # its) cars =
     (let year = (case year_of (it ''Year'') of None \<Rightarrow> 0 | Some y \<Rightarrow> y)
      in case item_Car it year of
           Inl f \<Rightarrow> Inl f
         | Inr c \<Rightarrow> scan_loop its (cars @ [c]))"

text \<open>The item \<open>handlePost\<close> hands to \<open>PutItem\<close>.\<close>

definition Car_item :: "Car \<Rightarrow> item" where
  "Car_item c =
     [''ID'' \<mapsto> AttributeValueMemberS (ID c),
      ''Make'' \<mapsto> AttributeValueMemberS (Make c),
      ''Model'' \<mapsto> AttributeValueMemberS (Model c),
      ''Year'' \<mapsto> AttributeValueMemberN (Sprintf_d (Year c))]"

subsection \<open>The handlers\<close>

definition respond :: "nat \<Rightarrow> string \<Rightarrow> APIGatewayV2HTTPResponse" where
  "respond code text = \<lparr>StatusCode = code, Body = Plain text, Headers = Map.empty\<rparr>"

definition respond_json :: "json \<Rightarrow> APIGatewayV2HTTPResponse" where
  "respond_json j =
     \<lparr>StatusCode = StatusOK, Body = Marshalled j,
      Headers = [''Content-Type'' \<mapsto> ''application/json'']\<rparr>"

definition handleGet :: "'s Client \<Rightarrow> (string \<rightharpoonup> string) \<Rightarrow> APIGatewayV2HTTPRequest \<Rightarrow> 's world \<Rightarrow> outcome \<times> 's world" where
  "handleGet db env req w =
     (let id = lookup_string (QueryStringParameters req) ''id'';
          TableNameEnv = os_Getenv env ''TABLE_NAME''
      in
      if TableNameEnv = [] then
        (Inr (respond StatusInternalServerError ''TABLE_NAME environment variable is not set''), w)
      else if id = [] then
        (case db_Scan db TableNameEnv w of
           (Inl err, w') \<Rightarrow> (Inr (respond StatusInternalServerError err), w')
         | (Inr items, w') \<Rightarrow>
             (case scan_loop items [] of
                Inl f \<Rightarrow> (Inl f, w')
              | Inr cars \<Rightarrow> (Inr (respond_json (Marshal_Cars cars)), w')))
      else
        (case db_GetItem db TableNameEnv [''ID'' \<mapsto> AttributeValueMemberS id] w of
           (Inl err, w') \<Rightarrow> (Inr (respond StatusInternalServerError err), w')
         | (Inr None, w') \<Rightarrow> (Inr (respond StatusNotFound ''item not found''), w')
         | (Inr (Some it), w') \<Rightarrow>
             (case year_of (it ''Year'') of
                None \<Rightarrow> (Inr (respond StatusInternalServerError ''invalid year field''), w')
              | Some year \<Rightarrow>
                  (case item_Car it year of
                     Inl f \<Rightarrow> (Inl f, w')
                   | Inr c \<Rightarrow> (Inr (respond_json (Marshal_Car c)), w')))))"

definition handlePost :: "'s Client \<Rightarrow> (string \<rightharpoonup> string) \<Rightarrow> APIGatewayV2HTTPRequest \<Rightarrow> 's world \<Rightarrow> outcome \<times> 's world" where
  "handlePost db env req w =
     (case Unmarshal_Car (ReqBody req) of
        (item, Some err) \<Rightarrow> (Inr (respond StatusBadRequest ''invalid request body''), w)
      | (item, None) \<Rightarrow>
          (let TableNameEnv = os_Getenv env ''TABLE_NAME'' in
           if TableNameEnv = [] then
             (Inr (respond StatusInternalServerError ''TABLE_NAME environment variable is not set''), w)
           else
             (case db_PutItem db TableNameEnv (Car_item item) w of
                (Some err, w') \<Rightarrow> (Inr (respond StatusInternalServerError err), w')
              | (None, w') \<Rightarrow>
                  (Inr \<lparr>StatusCode = StatusCreated,
                        Body = Plain (''item '' @ ID item @ '' created''),
                        Headers = [''Content-Type'' \<mapsto> ''text/plain'']\<rparr>, w'))))"

definition handler :: "'s Client \<Rightarrow> (string \<rightharpoonup> string) \<Rightarrow> APIGatewayV2HTTPRequest \<Rightarrow> 's world \<Rightarrow> outcome \<times> 's world" where
  "handler db env req w =
     (if Method req = ''GET'' then handleGet db env req w
      else if Method req = ''POST'' then handlePost db env req w
      else (Inr (respond StatusMethodNotAllowed ''method not allowed''), w))"

subsection \<open>A storage service that returns what was put\<close>

text \<open>
  A table is a list of items under their keys, the value of the string attribute \<open>ID\<close>;
  \<open>PutItem\<close> replaces the whole item under its key, \<open>GetItem\<close> returns the item under the
  key and \<open>Scan\<close> all items. A key that is not a string attribute is refused.
\<close>

type_synonym tables = "string \<Rightarrow> (string \<times> item) list"

definition mem_Scan :: "string \<Rightarrow> tables \<Rightarrow> (string + item list) \<times> tables" where
  "mem_Scan t s = (Inr (map snd (s t)), s)"

definition mem_GetItem :: "string \<Rightarrow> item \<Rightarrow> tables \<Rightarrow> (string + item option) \<times> tables" where
  "mem_GetItem t key s =
     (case key ''ID'' of
        Some (AttributeValueMemberS k) \<Rightarrow> (Inr (map_of (s t) k), s)
      | _ \<Rightarrow> (Inl ''ValidationException'', s))"

definition mem_PutItem :: "string \<Rightarrow> item \<Rightarrow> tables \<Rightarrow> string option \<times> tables" where
  "mem_PutItem t it s =
     (case it ''ID'' of
        Some (AttributeValueMemberS k) \<Rightarrow> (None, s(t := AList.update k it (s t)))
      | _ \<Rightarrow> (Some ''ValidationException'', s))"

definition mem_db :: "tables Client" where
  "mem_db = \<lparr>Scan = mem_Scan, GetItem = mem_GetItem, PutItem = mem_PutItem\<rparr>"

definition no_tables :: tables where
  "no_tables = (\<lambda>t. [])"

subsection \<open>Vocabulary of the statements\<close>

text \<open>The members of an object whose key the decoder matches to a field of \<open>Car\<close>.\<close>

definition matched_members :: "(string \<times> json) list \<Rightarrow> (string \<times> json) list" where
  "matched_members ms = filter (\<lambda>m. find_field (fst m) \<noteq> None) ms"

text \<open>
  For stored items: an attribute that is string-typed, or number-typed; an item whose
  three string attributes are string-typed; the record such an item and a year stand
  for, and the year the scan path takes for an item. These are written from the words
  of the claims, not from the code; \<open>item_Car_typed\<close> and \<open>scan_loop_typed\<close> below relate
  them to \<open>item_Car\<close> and \<open>scan_loop\<close>.
\<close>

definition is_S :: "AttributeValue option \<Rightarrow> bool" where
  "is_S a = (case a of Some (AttributeValueMemberS v) \<Rightarrow> True | _ \<Rightarrow> False)"

definition is_N :: "AttributeValue option \<Rightarrow> bool" where
  "is_N a = (case a of Some (AttributeValueMemberN v) \<Rightarrow> True | _ \<Rightarrow> False)"

definition strings_typed :: "item \<Rightarrow> bool" where
  "strings_typed it = (is_S (it ''ID'') \<and> is_S (it ''Make'') \<and> is_S (it ''Model''))"

definition S_Value :: "AttributeValue option \<Rightarrow> string" where
  "S_Value a = (case a of Some (AttributeValueMemberS v) \<Rightarrow> v | _ \<Rightarrow> [])"

definition mapped_Car :: "item \<Rightarrow> go_int \<Rightarrow> Car" where
  "mapped_Car it y =
     \<lparr>ID = S_Value (it ''ID''), Make = S_Value (it ''Make''), Model = S_Value (it ''Model''),
      Year = y\<rparr>"

definition scan_year :: "item \<Rightarrow> go_int" where
  "scan_year it = (case it ''Year'' of Some (AttributeValueMemberN v) \<Rightarrow> fst (Atoi v) | _ \<Rightarrow> 0)"

subsection \<open>Concrete requests, records and tables\<close>

definition table_env :: "string \<rightharpoonup> string" where
  "table_env = [''TABLE_NAME'' \<mapsto> ''MyItems'']"

definition post_request :: "json option \<Rightarrow> APIGatewayV2HTTPRequest" where
  "post_request b =
     \<lparr>Method = ''POST'', Path = ''/'', QueryStringParameters = Map.empty, ReqBody = b\<rparr>"

definition get_request :: "(string \<rightharpoonup> string) \<Rightarrow> APIGatewayV2HTTPRequest" where
  "get_request q =
     \<lparr>Method = ''GET'', Path = ''/'', QueryStringParameters = q, ReqBody = None\<rparr>"

definition corolla :: Car where
  "corolla = \<lparr>ID = ''c1'', Make = ''Toyota'', Model = ''Corolla'', Year = 2020\<rparr>"

definition nameless :: Car where
  "nameless = \<lparr>ID = [], Make = ''Toyota'', Model = ''Corolla'', Year = 2020\<rparr>"

definition delete_request :: APIGatewayV2HTTPRequest where
  "delete_request =
     \<lparr>Method = ''DELETE'', Path = ''/'', QueryStringParameters = [''id'' \<mapsto> ''c1''],
      ReqBody = Some (Marshal_Car corolla)\<rparr>"

definition corolla_tables :: tables where
  "corolla_tables = no_tables(''MyItems'' := [(''c1'', Car_item corolla)])"

definition no_year_body :: json where
  "no_year_body =
     JObject [(''id'', JString ''c1''), (''make'', JString ''Toyota''), (''model'', JString ''Corolla'')]"

definition null_year_body :: json where
  "null_year_body =
     JObject [(''id'', JString ''c1''), (''make'', JString ''Toyota''), (''model'', JString ''Corolla''),
              (''year'', JNull)]"

definition text_year_body :: json where
  "text_year_body =
     JObject [(''id'', JString ''c1''), (''make'', JString ''Toyota''), (''model'', JString ''Corolla''),
              (''year'', JString ''2020'')]"

definition corolla_0 :: Car where
  "corolla_0 = \<lparr>ID = ''c1'', Make = ''Toyota'', Model = ''Corolla'', Year = 0\<rparr>"

definition civic :: Car where
  "civic = \<lparr>ID = ''c1'', Make = ''Honda'', Model = ''Civic'', Year = 2021\<rparr>"

definition nameless_civic :: Car where
  "nameless_civic = \<lparr>ID = [], Make = ''Honda'', Model = ''Civic'', Year = 2021\<rparr>"

definition extra_fields_body :: json where
  "extra_fields_body =
     JObject [(''color'', JString ''red''), (''id'', JString ''c1''), (''make'', JString ''Toyota''),
              (''owner'', JObject [(''year'', JString ''x'')]),
              (''model'', JString ''Corolla''), (''year'', JNumber ''2020''),
              (''years'', JArray [JNumber ''1'', JBool True])]"

definition upper_YEAR_body :: json where
  "upper_YEAR_body =
     JObject [(''id'', JString ''c1''), (''make'', JString ''Toyota''),
              (''model'', JString ''Corolla''), (''year'', JNumber ''2020''),
              (''YEAR'', JNumber ''1999'')]"

definition corolla_1999 :: Car where
  "corolla_1999 = \<lparr>ID = ''c1'', Make = ''Toyota'', Model = ''Corolla'', Year = 1999\<rparr>"

definition yearless_item :: item where
  "yearless_item =
     [''ID'' \<mapsto> AttributeValueMemberS ''c2'', ''Make'' \<mapsto> AttributeValueMemberS ''Honda'',
      ''Model'' \<mapsto> AttributeValueMemberS ''Civic'']"

definition text_year_item :: item where
  "text_year_item =
     [''ID'' \<mapsto> AttributeValueMemberS ''c3'', ''Make'' \<mapsto> AttributeValueMemberS ''Honda'',
      ''Model'' \<mapsto> AttributeValueMemberS ''Civic'', ''Year'' \<mapsto> AttributeValueMemberS ''2021'']"

definition decimal_year_item :: item where
  "decimal_year_item =
     [''ID'' \<mapsto> AttributeValueMemberS ''c4'', ''Make'' \<mapsto> AttributeValueMemberS ''Honda'',
      ''Model'' \<mapsto> AttributeValueMemberS ''Civic'', ''Year'' \<mapsto> AttributeValueMemberN ''3.14'']"

definition makeless_item :: item where
  "makeless_item =
     [''ID'' \<mapsto> AttributeValueMemberS ''c5'', ''Model'' \<mapsto> AttributeValueMemberS ''Civic'',
      ''Year'' \<mapsto> AttributeValueMemberN ''2021'']"

definition civic_0 :: "string \<Rightarrow> Car" where
  "civic_0 i = \<lparr>ID = i, Make = ''Honda'', Model = ''Civic'', Year = 0\<rparr>"

definition mixed_tables :: tables where
  "mixed_tables =
     no_tables(''MyItems'' :=
       [(''c1'', Car_item corolla), (''c2'', yearless_item), (''c3'', text_year_item),
        (''c4'', decimal_year_item)])"

definition makeless_tables :: tables where
  "makeless_tables = no_tables(''MyItems'' := [(''c1'', Car_item corolla), (''c5'', makeless_item)])"

definition overlong_year_item :: item where
  "overlong_year_item =
     [''ID'' \<mapsto> AttributeValueMemberS ''c6'', ''Make'' \<mapsto> AttributeValueMemberS ''Honda'',
      ''Model'' \<mapsto> AttributeValueMemberS ''Civic'',
      ''Year'' \<mapsto> AttributeValueMemberN ''99999999999999999999.5'']"

definition overlong_tables :: tables where
  "overlong_tables = no_tables(''MyItems'' := [(''c6'', overlong_year_item)])"

definition civic_max :: Car where
  "civic_max = \<lparr>ID = ''c6'', Make = ''Honda'', Model = ''Civic'', Year = 9223372036854775807\<rparr>"

section \<open>Properties\<close>

subsection \<open>Decimal texts: \<open>ParseInt\<close> reads back what \<open>Sprintf\<close> writes\<close>

lemma char_of_digit:
  "char_of (48::nat) = CHR ''0''" "char_of (49::nat) = CHR ''1''" "char_of (50::nat) = CHR ''2''"
  "char_of (51::nat) = CHR ''3''" "char_of (52::nat) = CHR ''4''" "char_of (53::nat) = CHR ''5''"
  "char_of (54::nat) = CHR ''6''" "char_of (55::nat) = CHR ''7''" "char_of (56::nat) = CHR ''8''"
  "char_of (57::nat) = CHR ''9''"
  by code_simp+

lemma is_digit_char_of: "d < 10 \<Longrightarrow> is_digit (char_of (48 + d :: nat))"
  by (simp add: is_digit_def)

lemma digit_val_char_of: "d < 10 \<Longrightarrow> digit_val (char_of (48 + d)) = d"
  by (simp add: digit_val_def)

lemma ParseUint_loop_append:
  "ParseUint_loop (xs @ ys) n =
     (case ParseUint_loop xs n of (m, None) \<Rightarrow> ParseUint_loop ys m | (m, Some e) \<Rightarrow> (m, Some e))"
  by (induction xs arbitrary: n) auto

lemma decimal_not_Nil: "decimal n \<noteq> []"
  by (subst decimal.simps) simp

lemma decimal_digits: "c \<in> set (decimal n) \<Longrightarrow> is_digit c"
proof (induction n rule: decimal.induct)
  case (1 n)
  then show ?case
    by (subst (asm) (2) decimal.simps) (auto simp: is_digit_char_of split: if_splits)
qed

lemma ParseUint_loop_decimal:
  "n \<le> maxUint64 \<Longrightarrow> ParseUint_loop (decimal n) 0 = (n, None)"
proof (induction n rule: decimal.induct)
  case (1 n)
  show ?case
  proof (cases "n < 10")
    case True
    then show ?thesis using 1(2)
      by (subst decimal.simps) (simp add: is_digit_char_of digit_val_char_of maxUint64_def)
  next
    case False
    have le: "n div 10 \<le> maxUint64" using 1(2) by simp
    have ih: "ParseUint_loop (decimal (n div 10)) 0 = (n div 10, None)"
      using 1(1) False le by simp
    have lt: "n div 10 < maxUint64 div 10 + 1" using 1(2) by (simp add: maxUint64_def)
    have eq: "n div 10 * 10 + n mod 10 = n" by simp
    show ?thesis using False 1(2) lt
      by (subst decimal.simps)
         (simp add: ParseUint_loop_append ih is_digit_char_of digit_val_char_of eq)
  qed
qed

lemma ParseUint_decimal: "n \<le> maxUint64 \<Longrightarrow> ParseUint (decimal n) = (n, None)"
  by (simp add: ParseUint_def decimal_not_Nil ParseUint_loop_decimal)

lemma hd_decimal: "hd (decimal n) \<noteq> CHR ''-'' \<and> hd (decimal n) \<noteq> CHR ''+''"
proof -
  have "hd (decimal n) \<in> set (decimal n)" by (simp add: decimal_not_Nil)
  then have "is_digit (hd (decimal n))" by (rule decimal_digits)
  then show ?thesis by (auto simp: is_digit_def)
qed

lemma ParseInt_Sprintf_d: "ParseInt (Sprintf_d y) = (y, None)"
proof (cases "sint y < 0")
  case True
  define m where "m = nat (- sint y)"
  have m_le: "m \<le> 2 ^ 63" using sint_ge [of y] by (simp add: m_def)
  then have "m \<le> maxUint64" by (simp add: maxUint64_def)
  then have pu: "ParseUint (decimal m) = (m, None)" by (rule ParseUint_decimal)
  have "word_of_nat m = (word_of_int (- sint y) :: 64 word)"
    using True by (simp add: m_def)
  then have w_eq: "- (word_of_nat m :: 64 word) = y" by simp
  show ?thesis using True m_le pu w_eq
    by (simp add: Sprintf_d_def ParseInt_def m_def [symmetric])
next
  case False
  define m where "m = nat (sint y)"
  have m_lt: "m < 2 ^ 63" using sint_lt [of y] False by (simp add: m_def)
  then have "m \<le> maxUint64" by (simp add: maxUint64_def)
  then have pu: "ParseUint (decimal m) = (m, None)" by (rule ParseUint_decimal)
  have w_eq: "(word_of_nat m :: 64 word) = y"
    using False by (simp add: m_def)
  show ?thesis using False m_lt pu w_eq hd_decimal [of m] decimal_not_Nil [of m]
    by (simp add: Sprintf_d_def ParseInt_def m_def [symmetric])
qed

subsection \<open>The record mapper, there and back\<close>

lemma find_field_tags:
  "find_field ''id'' = Some ''id''" "find_field ''make'' = Some ''make''"
  "find_field ''model'' = Some ''model''" "find_field ''year'' = Some ''year''"
  by (simp_all add: find_field_def Car_tags_def)

lemma Unmarshal_Marshal_Car: "Unmarshal_Car (Some (Marshal_Car c)) = (c, None)"
  by (simp add: Unmarshal_Car_def Marshal_Car_def decode_member_def find_field_tags
      ParseInt_Sprintf_d zero_Car_def)

lemma year_of_Car_item: "year_of (Car_item c ''Year'') = Some (Year c)"
  by (simp add: year_of_def Car_item_def Atoi_def ParseInt_Sprintf_d)

lemma item_Car_Car_item: "item_Car (Car_item c) (Year c) = Inr c"
  by (simp add: item_Car_def Car_item_def assert_S_def)

lemma table_env_name: "os_Getenv table_env ''TABLE_NAME'' = ''MyItems''"
  by (simp add: os_Getenv_def lookup_string_def table_env_def)

lemma Marshal_Car_corolla:
  "Marshal_Car corolla =
     JObject [(''id'', JString ''c1''), (''make'', JString ''Toyota''),
              (''model'', JString ''Corolla''), (''year'', JNumber ''2020'')]"
  by (simp add: Marshal_Car_def corolla_def Sprintf_d_def decimal.simps char_of_digit)

subsection \<open>The branches of the handlers\<close>

lemma handlePost_Marshal_Car:
  assumes "ReqBody req = Some (Marshal_Car R)"
    and "os_Getenv env ''TABLE_NAME'' = t" and "t \<noteq> []"
    and "PutItem db t (Car_item R) s = (None, s')"
  shows "handlePost db env req (s, tr) =
           (Inr \<lparr>StatusCode = 201, Body = Plain (''item '' @ ID R @ '' created''),
                 Headers = [''Content-Type'' \<mapsto> ''text/plain'']\<rparr>,
            (s', tr @ [PutItemCall t (Car_item R)]))"
  using assms
  by (simp add: handlePost_def Unmarshal_Marshal_Car db_PutItem_def StatusCreated_def)

lemma handleGet_Car_item:
  assumes "lookup_string (QueryStringParameters req) ''id'' = i" and "i \<noteq> []"
    and "os_Getenv env ''TABLE_NAME'' = t" and "t \<noteq> []"
    and "GetItem db t [''ID'' \<mapsto> AttributeValueMemberS i] s = (Inr (Some (Car_item R)), s')"
  shows "handleGet db env req (s, tr) =
           (Inr \<lparr>StatusCode = 200, Body = Marshalled (Marshal_Car R),
                 Headers = [''Content-Type'' \<mapsto> ''application/json'']\<rparr>,
            (s', tr @ [GetItemCall t [''ID'' \<mapsto> AttributeValueMemberS i]]))"
  using assms
  by (simp add: handleGet_def db_GetItem_def year_of_Car_item item_Car_Car_item
      respond_json_def StatusOK_def)

lemma handleGet_scan:
  assumes "lookup_string (QueryStringParameters req) ''id'' = []"
    and "os_Getenv env ''TABLE_NAME'' = t" and "t \<noteq> []"
    and "Scan db t s = (Inr items, s')"
    and "scan_loop items [] = Inr cars"
  shows "handleGet db env req (s, tr) =
           (Inr \<lparr>StatusCode = 200, Body = Marshalled (JArray (map Marshal_Car cars)),
                 Headers = [''Content-Type'' \<mapsto> ''application/json'']\<rparr>,
            (s', tr @ [ScanCall t]))"
  using assms
  by (simp add: handleGet_def db_Scan_def respond_json_def Marshal_Cars_def StatusOK_def)

subsection \<open>Decoding an object: the first error is kept\<close>

lemma saveError_kept: "saveError (Some e) = Some e"
  by (simp add: saveError_def)

lemma saveError_Some: "\<exists>e'. saveError e = Some e'"
  by (cases e) (simp_all add: saveError_def)

lemma decode_member_error_kept: "snd (decode_member m (c, Some e)) = Some e"
  by (simp add: decode_member_def saveError_kept split: option.splits stored.splits)

lemma decode_object_error_kept: "snd (decode_object ms (c, Some e)) = Some e"
proof (induction ms arbitrary: c)
  case Nil
  show ?case by simp
next
  case (Cons m ms)
  obtain c' where "decode_member m (c, Some e) = (c', Some e)"
    using decode_member_error_kept [of m c e] by (cases "decode_member m (c, Some e)") simp
  then show ?case using Cons.IH by simp
qed

lemma decode_member_year_Mismatch:
  assumes "find_field k = Some ''year''" and "decode_int v = Mismatch"
  shows "\<exists>c e. decode_member (k, v) st = (c, Some e)"
proof -
  obtain e where "saveError (snd st) = Some e"
    using saveError_Some by blast
  then show ?thesis using assms by (simp add: decode_member_def)
qed

lemma decode_object_year_Mismatch:
  "(k, v) \<in> set ms \<Longrightarrow> find_field k = Some ''year'' \<Longrightarrow> decode_int v = Mismatch \<Longrightarrow>
     \<exists>c e. decode_object ms st = (c, Some e)"
proof (induction ms arbitrary: st)
  case Nil
  then show ?case by simp
next
  case (Cons m ms)
  show ?case
  proof (cases "m = (k, v)")
    case True
    then obtain c e where "decode_member m st = (c, Some e)"
      using Cons.prems decode_member_year_Mismatch by blast
    then have "snd (decode_object (m # ms) st) = Some e"
      by (simp add: decode_object_error_kept)
    then show ?thesis by (cases "decode_object (m # ms) st") simp
  next
    case False
    then have "(k, v) \<in> set ms" using Cons.prems by simp
    then show ?thesis using Cons.IH Cons.prems by simp
  qed
qed

lemma decode_int_Mismatch:
  "v \<noteq> JNull \<Longrightarrow> (\<And>lit. v = JNumber lit \<Longrightarrow> snd (ParseInt lit) \<noteq> None) \<Longrightarrow>
     decode_int v = Mismatch"
  by (cases v) (auto split: prod.splits option.splits)

lemma Car_item_corolla_0_Year: "Car_item corolla_0 ''Year'' = Some (AttributeValueMemberN ''0'')"
  by (simp add: Car_item_def corolla_0_def Sprintf_d_def decimal.simps char_of_digit)

lemma handlePost_decoded:
  assumes "Unmarshal_Car (ReqBody req) = (c, None)"
    and "os_Getenv env ''TABLE_NAME'' = t" and "t \<noteq> []"
    and "PutItem db t (Car_item c) s = (None, s')"
  shows "handlePost db env req (s, tr) =
           (Inr \<lparr>StatusCode = 201, Body = Plain (''item '' @ ID c @ '' created''),
                 Headers = [''Content-Type'' \<mapsto> ''text/plain'']\<rparr>,
            (s', tr @ [PutItemCall t (Car_item c)]))"
  using assms
  by (simp add: handlePost_def db_PutItem_def StatusCreated_def)

lemma mem_PutItem_Car_item:
  "PutItem mem_db t (Car_item c) s = (None, s(t := AList.update (ID c) (Car_item c) (s t)))"
  by (simp add: mem_db_def mem_PutItem_def Car_item_def)

subsection \<open>The dispatcher and the table service\<close>

lemma handler_POST: "Method req = ''POST'' \<Longrightarrow> handler db env req w = handlePost db env req w"
  by (simp add: handler_def)

lemma handler_GET: "Method req = ''GET'' \<Longrightarrow> handler db env req w = handleGet db env req w"
  by (simp add: handler_def)

lemma mem_GetItem_updated:
  "GetItem mem_db t [''ID'' \<mapsto> AttributeValueMemberS k] (s(t := AList.update k it al)) =
     (Inr (Some it), s(t := AList.update k it al))"
  by (simp add: mem_db_def mem_GetItem_def update_conv')

lemma update_update_same: "AList.update k v (AList.update k u al) = AList.update k v al"
  by (induction al) auto

subsection \<open>Members the decoder does not match\<close>

lemma decode_member_unmatched: "find_field (fst m) = None \<Longrightarrow> decode_member m st = st"
  by (simp add: decode_member_def)

lemma decode_object_matched_members:
  "decode_object (matched_members ms) st = decode_object ms st"
  by (induction ms arbitrary: st) (auto simp: matched_members_def decode_member_unmatched)

lemma dom_Car_item: "dom (Car_item c) = {''ID'', ''Make'', ''Model'', ''Year''}"
  by (auto simp: Car_item_def)

lemma handlePost_trace:
  "snd (snd (handlePost db env req w)) = snd w
   \<or> (\<exists>c. snd (snd (handlePost db env req w)) =
            snd w @ [PutItemCall (os_Getenv env ''TABLE_NAME'') (Car_item c)])"
  by (auto simp: handlePost_def db_PutItem_def Let_def split: prod.splits option.splits)

lemma find_field_unmatched:
  "find_field ''color'' = None" "find_field ''owner'' = None" "find_field ''years'' = None"
  by (simp_all add: find_field_def Car_tags_def to_upper_def is_lower_def)

text \<open>
  A key is matched exactly when it folds to the folded name of a tag. So \<open>YEAR\<close> is
  matched, and so is \<open>make\<close> written with the Kelvin sign for its \<open>k\<close>.
\<close>

lemma foldName_tags:
  "foldName ''id'' = ''ID''" "foldName ''make'' = ''MAKE''"
  "foldName ''model'' = ''MODEL''" "foldName ''year'' = ''YEAR''"
  by code_simp+

lemma find_field_None_iff:
  "find_field k = None \<longleftrightarrow> foldName k \<notin> {''ID'', ''MAKE'', ''MODEL'', ''YEAR''}"
proof (cases "k \<in> set Car_tags")
  case True
  then show ?thesis
    by (auto simp: find_field_def Car_tags_def foldName_tags simp del: foldName.simps)
next
  case False
  then show ?thesis
    by (auto simp: find_field_def find_None_iff Car_tags_def foldName_tags
        simp del: foldName.simps)
qed

lemma find_field_YEAR: "find_field ''YEAR'' = Some ''year''"
  by code_simp

lemma find_field_Kelvin:
  "find_field [CHR ''m'', CHR ''a'', CHR 0xE2, CHR 0x84, CHR 0xAA, CHR ''e''] = Some ''make''"
  by code_simp


lemma post_corolla:
  "handler mem_db table_env (post_request (Some (Marshal_Car corolla))) (no_tables, []) =
     (Inr \<lparr>StatusCode = 201, Body = Plain ''item c1 created'',
           Headers = [''Content-Type'' \<mapsto> ''text/plain'']\<rparr>,
      (corolla_tables, [PutItemCall ''MyItems'' (Car_item corolla)]))"
proof -
  have put: "PutItem mem_db ''MyItems'' (Car_item corolla) no_tables = (None, corolla_tables)"
    by (simp add: mem_PutItem_Car_item) (simp add: corolla_def no_tables_def corolla_tables_def)
  have i: "ID corolla = ''c1''" by (simp add: corolla_def)
  show ?thesis
    using handlePost_Marshal_Car [OF _ table_env_name _ put,
        of "post_request (Some (Marshal_Car corolla))" "[]"]
    by (simp add: handler_POST post_request_def i)
qed

subsection \<open>Stored items and the read paths\<close>

lemma year_of_not_N: "\<not> is_N a \<Longrightarrow> year_of a = None"
  by (simp add: year_of_def is_N_def split: option.splits AttributeValue.splits)

lemma year_of_N: "year_of (Some (AttributeValueMemberN v)) = Some (fst (Atoi v))"
  by (simp add: year_of_def)

lemma scan_year_year_of: "scan_year it = (case year_of (it ''Year'') of None \<Rightarrow> 0 | Some y \<Rightarrow> y)"
  by (simp add: scan_year_def year_of_def split: option.splits AttributeValue.splits)

lemma scan_year_not_N: "\<not> is_N (it ''Year'') \<Longrightarrow> scan_year it = 0"
  by (simp add: scan_year_def is_N_def split: option.splits AttributeValue.splits)

lemma item_Car_typed: "strings_typed it \<Longrightarrow> item_Car it y = Inr (mapped_Car it y)"
  by (auto simp: strings_typed_def is_S_def item_Car_def assert_S_def mapped_Car_def S_Value_def
      split: option.splits AttributeValue.splits)

lemma scan_loop_typed:
  "list_all strings_typed items \<Longrightarrow>
     scan_loop items cars = Inr (cars @ map (\<lambda>it. mapped_Car it (scan_year it)) items)"
proof (induction items arbitrary: cars)
  case Nil
  show ?case by simp
next
  case (Cons it items)
  then have "item_Car it (scan_year it) = Inr (mapped_Car it (scan_year it))"
    by (simp add: item_Car_typed)
  then show ?case
    using Cons by (simp add: scan_year_year_of [symmetric])
qed

lemma Atoi_syntax_zero: "snd (Atoi v) = Some ErrSyntax \<Longrightarrow> fst (Atoi v) = 0"
  by (auto simp: Atoi_def ParseInt_def Let_def split: prod.splits if_splits)

lemma handleGet_item:
  assumes "lookup_string (QueryStringParameters req) ''id'' = i" and "i \<noteq> []"
    and "os_Getenv env ''TABLE_NAME'' = t" and "t \<noteq> []"
    and "GetItem db t [''ID'' \<mapsto> AttributeValueMemberS i] s = (Inr (Some it), s')"
  shows "handleGet db env req (s, tr) =
           ((case year_of (it ''Year'') of
               None \<Rightarrow> Inr (respond StatusInternalServerError ''invalid year field'')
             | Some year \<Rightarrow>
                 (case item_Car it year of Inl f \<Rightarrow> Inl f
                  | Inr c \<Rightarrow> Inr (respond_json (Marshal_Car c)))),
            (s', tr @ [GetItemCall t [''ID'' \<mapsto> AttributeValueMemberS i]]))"
  using assms
  by (simp add: handleGet_def db_GetItem_def split: option.splits sum.splits)

lemma mixed_Scan:
  "Scan mem_db ''MyItems'' mixed_tables =
     (Inr [Car_item corolla, yearless_item, text_year_item, decimal_year_item], mixed_tables)"
  by (simp add: mem_db_def mem_Scan_def mixed_tables_def)

lemma mixed_GetItem:
  "GetItem mem_db ''MyItems'' [''ID'' \<mapsto> AttributeValueMemberS ''c1''] mixed_tables =
     (Inr (Some (Car_item corolla)), mixed_tables)"
  "GetItem mem_db ''MyItems'' [''ID'' \<mapsto> AttributeValueMemberS ''c2''] mixed_tables =
     (Inr (Some yearless_item), mixed_tables)"
  "GetItem mem_db ''MyItems'' [''ID'' \<mapsto> AttributeValueMemberS ''c3''] mixed_tables =
     (Inr (Some text_year_item), mixed_tables)"
  "GetItem mem_db ''MyItems'' [''ID'' \<mapsto> AttributeValueMemberS ''c4''] mixed_tables =
     (Inr (Some decimal_year_item), mixed_tables)"
  by (simp_all add: mem_db_def mem_GetItem_def mixed_tables_def)

lemma strings_typed_Car_item: "strings_typed (Car_item c)"
  by (simp add: strings_typed_def is_S_def Car_item_def)

lemma mixed_typed:
  "strings_typed yearless_item" "strings_typed text_year_item" "strings_typed decimal_year_item"
  by (simp_all add: strings_typed_def is_S_def yearless_item_def text_year_item_def
      decimal_year_item_def)

lemma mapped_Car_Car_item: "mapped_Car (Car_item c) y = c\<lparr>Year := y\<rparr>"
  by (simp add: mapped_Car_def Car_item_def S_Value_def)


lemma Atoi_decimal_point: "Atoi ''3.14'' = (0, Some ErrSyntax)"
  by (simp add: Atoi_def ParseInt_def ParseUint_def is_digit_def digit_val_def maxUint64_def)


lemma mixed_year_of:
  "year_of (yearless_item ''Year'') = None" "year_of (text_year_item ''Year'') = None"
  "year_of (decimal_year_item ''Year'') = Some 0"
  by (simp_all add: year_of_def yearless_item_def text_year_item_def decimal_year_item_def
      Atoi_decimal_point)

lemma get_request_fields:
  "Method (get_request q) = ''GET''"
  "lookup_string (QueryStringParameters (get_request Map.empty)) ''id'' = []"
  "lookup_string (QueryStringParameters (get_request [''id'' \<mapsto> i])) ''id'' = i"
  by (simp_all add: get_request_def lookup_string_def)

text \<open>
  An item without a string-typed \<open>Make\<close> makes the unchecked assertion fail: the scan
  and the read by its key end in a panic, with no response.
\<close>

lemma handleGet_scan_fault:
  assumes "lookup_string (QueryStringParameters req) ''id'' = []"
    and "os_Getenv env ''TABLE_NAME'' = t" and "t \<noteq> []"
    and "Scan db t s = (Inr items, s')"
    and "scan_loop items [] = Inl f"
  shows "handleGet db env req (s, tr) = (Inl f, (s', tr @ [ScanCall t]))"
  using assms by (simp add: handleGet_def db_Scan_def)

lemma makeless_item_panics:
  "handler mem_db table_env (get_request Map.empty) (makeless_tables, []) =
     (Inl TypeAssertionPanic, (makeless_tables, [ScanCall ''MyItems'']))"
  "handler mem_db table_env (get_request [''id'' \<mapsto> ''c5'']) (makeless_tables, []) =
     (Inl TypeAssertionPanic,
      (makeless_tables, [GetItemCall ''MyItems'' [''ID'' \<mapsto> AttributeValueMemberS ''c5'']]))"
proof -
  have y: "year_of (makeless_item ''Year'') = Some (fst (Atoi ''2021''))"
    by (simp add: year_of_def makeless_item_def)
  have p: "item_Car makeless_item y = Inl TypeAssertionPanic" for y
    by (simp add: item_Car_def assert_S_def makeless_item_def)
  have l: "scan_loop [Car_item corolla, makeless_item] [] = Inl TypeAssertionPanic"
    using year_of_Car_item [of corolla] item_Car_Car_item [of corolla] by (simp add: p)
  show "handler mem_db table_env (get_request Map.empty) (makeless_tables, []) =
     (Inl TypeAssertionPanic, (makeless_tables, [ScanCall ''MyItems'']))"
    using handleGet_scan_fault [OF get_request_fields(2) table_env_name _ _ l,
        of mem_db makeless_tables makeless_tables "[]"]
    by (simp add: handler_GET get_request_fields mem_db_def mem_Scan_def makeless_tables_def)
  have g: "GetItem mem_db ''MyItems'' [''ID'' \<mapsto> AttributeValueMemberS ''c5''] makeless_tables =
      (Inr (Some makeless_item), makeless_tables)"
    by (simp add: mem_db_def mem_GetItem_def makeless_tables_def)
  show "handler mem_db table_env (get_request [''id'' \<mapsto> ''c5'']) (makeless_tables, []) =
     (Inl TypeAssertionPanic,
      (makeless_tables, [GetItemCall ''MyItems'' [''ID'' \<mapsto> AttributeValueMemberS ''c5'']]))"
    using handleGet_item [OF get_request_fields(3) _ table_env_name _ g, of "[]"]
    by (simp add: handler_GET get_request_fields y p)
qed

text \<open>
  The value \<open>Atoi\<close> returns with a range error, and the scan of items whose string
  attributes are string-typed.
\<close>

lemma Atoi_range_bound:
  "snd (Atoi v) = Some ErrRange \<Longrightarrow>
     fst (Atoi v) = 9223372036854775807 \<or> fst (Atoi v) = - 9223372036854775808"
  by (auto simp: Atoi_def ParseInt_def Let_def split: prod.splits if_splits)

lemma Atoi_overlong: "Atoi ''99999999999999999999.5'' = (9223372036854775807, Some ErrRange)"
  by (simp add: Atoi_def ParseInt_def ParseUint_def is_digit_def digit_val_def maxUint64_def)

lemma scan_year_N: "it ''Year'' = Some (AttributeValueMemberN v) \<Longrightarrow> scan_year it = fst (Atoi v)"
  by (simp add: scan_year_def)

lemma handler_scan_typed:
  assumes "Method req = ''GET''" and "os_Getenv env ''TABLE_NAME'' = t" and "t \<noteq> []"
    and "lookup_string (QueryStringParameters req) ''id'' = []"
    and "Scan db t s = (Inr items, s')"
    and "list_all strings_typed items"
  shows "handler db env req (s, tr) =
        (Inr \<lparr>StatusCode = 200,
              Body = Marshalled (JArray (map (\<lambda>it. Marshal_Car (mapped_Car it (scan_year it))) items)),
              Headers = [''Content-Type'' \<mapsto> ''application/json'']\<rparr>,
         (s', tr @ [ScanCall t]))"
proof -
  have "scan_loop items [] = Inr (map (\<lambda>it. mapped_Car it (scan_year it)) items)"
    using scan_loop_typed [OF assms(6), of "[]"] by simp
  from handleGet_scan [OF assms(4) assms(2) assms(3) assms(5) this, of tr]
  show ?thesis
    by (simp add: handler_GET [OF assms(1)] comp_def)
qed

lemma overlong_GetItem:
  "GetItem mem_db ''MyItems'' [''ID'' \<mapsto> AttributeValueMemberS ''c6''] overlong_tables =
     (Inr (Some overlong_year_item), overlong_tables)"
  by (simp add: mem_db_def mem_GetItem_def overlong_tables_def)

lemma overlong_typed: "strings_typed overlong_year_item"
  by (simp add: strings_typed_def is_S_def overlong_year_item_def)

section \<open>The claims\<close>

subsection \<open>C9: any other method\<close>

text \<open>
  C9. A request whose method is neither \<open>GET\<close> nor \<open>POST\<close> is answered 405 with the plain
  text \<open>method not allowed\<close>, whatever its query parameters and body are; the state of
  the service and the trace of calls are unchanged, so no storage operation is made.
\<close>

theorem other_method_not_allowed:
  assumes "Method req \<noteq> ''GET''" and "Method req \<noteq> ''POST''"
  shows "handler db env req w =
           (Inr \<lparr>StatusCode = 405, Body = Plain ''method not allowed'', Headers = Map.empty\<rparr>, w)"
  using assms by (simp add: handler_def respond_def StatusMethodNotAllowed_def)

theorem other_method_not_allowed_witness:
  "Method delete_request \<noteq> ''GET'' \<and> Method delete_request \<noteq> ''POST''
   \<and> handler mem_db table_env delete_request (corolla_tables, []) =
       (Inr \<lparr>StatusCode = 405, Body = Plain ''method not allowed'', Headers = Map.empty\<rparr>,
        (corolla_tables, []))"
proof -
  have g: "Method delete_request \<noteq> ''GET''" and p: "Method delete_request \<noteq> ''POST''"
    by (simp_all add: delete_request_def)
  show ?thesis
    using g p other_method_not_allowed [OF g p, of mem_db table_env "(corolla_tables, [])"]
    by simp
qed

subsection \<open>C8: reading an absent key\<close>



subsection \<open>C7: scanning an empty table\<close>

text \<open>
  C7. A \<open>GET\<close> request without an id, with the table name configured and a scan that
  succeeds with no items, is answered 200 with the empty JSON array as its body (the
  array \<open>JArray []\<close>, which is not \<open>JNull\<close>: \<open>cars\<close> starts as the non-nil empty slice) and
  the JSON content type; so it is neither 404 nor 500.
\<close>

theorem scan_empty_table:
  assumes "Method req = ''GET''"
    and "lookup_string (QueryStringParameters req) ''id'' = []"
    and "os_Getenv env ''TABLE_NAME'' = t" and "t \<noteq> []"
    and "Scan db t s = (Inr [], s')"
  shows "handler db env req (s, tr) =
           (Inr \<lparr>StatusCode = 200, Body = Marshalled (JArray []),
                 Headers = [''Content-Type'' \<mapsto> ''application/json'']\<rparr>,
            (s', tr @ [ScanCall t]))"
  using assms
  by (simp add: handler_def handleGet_def db_Scan_def respond_json_def Marshal_Cars_def
      StatusOK_def)

theorem scan_empty_table_witness:
  "handler mem_db table_env (get_request Map.empty) (no_tables, []) =
     (Inr \<lparr>StatusCode = 200, Body = Marshalled (JArray []),
           Headers = [''Content-Type'' \<mapsto> ''application/json'']\<rparr>,
      (no_tables, [ScanCall ''MyItems'']))"
proof -
  have sc: "Scan mem_db ''MyItems'' no_tables = (Inr [], no_tables)"
    by (simp add: mem_db_def mem_Scan_def no_tables_def)
  show ?thesis
    using scan_empty_table [of "get_request Map.empty" table_env "''MyItems''" mem_db
        no_tables no_tables "[]"] sc
    by (simp add: get_request_def lookup_string_def os_Getenv_def table_env_def)
qed

subsection \<open>C6: the table name is not configured\<close>

text \<open>
  C6, as stated, fails: \<open>handlePost\<close> decodes the body before it reads the environment,
  so a \<open>POST\<close> whose body does not decode is answered 400 also when \<open>TABLE_NAME\<close> is not
  set.
\<close>

theorem missing_table_name_bad_body_counterexample:
  "os_Getenv Map.empty ''TABLE_NAME'' = []
   \<and> handler mem_db Map.empty (post_request None) (no_tables, []) =
       (Inr \<lparr>StatusCode = 400, Body = Plain ''invalid request body'', Headers = Map.empty\<rparr>,
        (no_tables, []))"
  by (simp add: os_Getenv_def lookup_string_def handler_def handlePost_def post_request_def
      Unmarshal_Car_def respond_def StatusBadRequest_def)

text \<open>
  C6, amended. When \<open>TABLE_NAME\<close> is absent (or empty), every \<open>GET\<close> request, and every
  \<open>POST\<close> request whose body decodes without error, is answered 500 with the text
  \<open>TABLE_NAME environment variable is not set\<close>, and no storage operation is made: the
  state of the service and the trace are unchanged.
\<close>

theorem missing_table_name_before_storage:
  assumes "os_Getenv env ''TABLE_NAME'' = []"
    and "Method req = ''GET'' \<or> (Method req = ''POST'' \<and> snd (Unmarshal_Car (ReqBody req)) = None)"
  shows "handler db env req w =
           (Inr \<lparr>StatusCode = 500, Body = Plain ''TABLE_NAME environment variable is not set'',
                 Headers = Map.empty\<rparr>, w)"
  using assms
  by (auto simp: handler_def handleGet_def handlePost_def respond_def
      StatusInternalServerError_def split: prod.splits option.splits)

theorem missing_table_name_before_storage_witness:
  "handler mem_db Map.empty (get_request [''id'' \<mapsto> ''c1'']) (corolla_tables, []) =
     (Inr \<lparr>StatusCode = 500, Body = Plain ''TABLE_NAME environment variable is not set'',
           Headers = Map.empty\<rparr>, (corolla_tables, []))
   \<and> handler mem_db Map.empty (post_request (Some (Marshal_Car corolla))) (corolla_tables, []) =
     (Inr \<lparr>StatusCode = 500, Body = Plain ''TABLE_NAME environment variable is not set'',
           Headers = Map.empty\<rparr>, (corolla_tables, []))"
  using missing_table_name_before_storage [of Map.empty "get_request [''id'' \<mapsto> ''c1'']"
      mem_db "(corolla_tables, [])"]
    missing_table_name_before_storage [of Map.empty "post_request (Some (Marshal_Car corolla))"
      mem_db "(corolla_tables, [])"]
  by (simp add: os_Getenv_def lookup_string_def get_request_def post_request_def
      Unmarshal_Marshal_Car)

subsection \<open>C1: a record written is the record read\<close>

text \<open>
  C1, as stated, fails for a record whose \<open>ID\<close> is the empty string: \<open>handleGet\<close> takes an
  empty \<open>id\<close> for an absent one and scans the table. After the record is written (201),
  the read by its \<open>ID\<close> is answered 200 with an array of all records, and an array does
  not decode to a \<open>Car\<close>.
\<close>

theorem roundtrip_empty_ID_counterexample:
  "fst (handler mem_db table_env (post_request (Some (Marshal_Car nameless))) (no_tables, [])) =
     Inr \<lparr>StatusCode = 201, Body = Plain ''item  created'',
          Headers = [''Content-Type'' \<mapsto> ''text/plain'']\<rparr>
   \<and> fst (handler mem_db table_env (get_request [''id'' \<mapsto> ID nameless])
          (snd (handler mem_db table_env (post_request (Some (Marshal_Car nameless)))
                 (no_tables, [])))) =
     Inr \<lparr>StatusCode = 200, Body = Marshalled (JArray [Marshal_Car nameless]),
          Headers = [''Content-Type'' \<mapsto> ''application/json'']\<rparr>
   \<and> Unmarshal_Car (Some (JArray [Marshal_Car nameless])) = (zero_Car, Some UnmarshalTypeError)"
proof -
  let ?s1 = "no_tables(''MyItems'' := [([], Car_item nameless)])"
  let ?get = "get_request [''id'' \<mapsto> ID nameless]"
  have put: "PutItem mem_db ''MyItems'' (Car_item nameless) no_tables = (None, ?s1)"
    by (simp add: mem_db_def mem_PutItem_def Car_item_def nameless_def no_tables_def)
  have p: "handlePost mem_db table_env (post_request (Some (Marshal_Car nameless))) (no_tables, []) =
      (Inr \<lparr>StatusCode = 201, Body = Plain (''item '' @ ID nameless @ '' created''),
            Headers = [''Content-Type'' \<mapsto> ''text/plain'']\<rparr>,
       (?s1, [] @ [PutItemCall ''MyItems'' (Car_item nameless)]))"
    by (rule handlePost_Marshal_Car [OF _ table_env_name _ put])
       (simp_all add: post_request_def)
  have l: "scan_loop [Car_item nameless] [] = Inr [nameless]"
    using year_of_Car_item [of nameless] item_Car_Car_item [of nameless] by simp
  have sc: "Scan mem_db ''MyItems'' ?s1 = (Inr [Car_item nameless], ?s1)"
    by (simp add: mem_db_def mem_Scan_def)
  have g: "handleGet mem_db table_env ?get
        (?s1, [PutItemCall ''MyItems'' (Car_item nameless)]) =
      (Inr \<lparr>StatusCode = 200, Body = Marshalled (JArray (map Marshal_Car [nameless])),
            Headers = [''Content-Type'' \<mapsto> ''application/json'']\<rparr>,
       (?s1, [PutItemCall ''MyItems'' (Car_item nameless)] @ [ScanCall ''MyItems'']))"
    by (rule handleGet_scan [OF _ table_env_name _ sc l])
       (simp_all add: get_request_def lookup_string_def nameless_def)
  have i: "''item '' @ ID nameless @ '' created'' = ''item  created''"
    by (simp add: nameless_def)
  have hp: "handler mem_db table_env (post_request (Some (Marshal_Car nameless))) (no_tables, []) =
      handlePost mem_db table_env (post_request (Some (Marshal_Car nameless))) (no_tables, [])"
    by (simp add: handler_def post_request_def)
  have hg: "handler mem_db table_env ?get (?s1, [PutItemCall ''MyItems'' (Car_item nameless)]) =
      handleGet mem_db table_env ?get (?s1, [PutItemCall ''MyItems'' (Car_item nameless)])"
    by (simp add: handler_def get_request_def)
  have u: "Unmarshal_Car (Some (JArray [Marshal_Car nameless])) = (zero_Car, Some UnmarshalTypeError)"
    by (simp add: Unmarshal_Car_def)
  show ?thesis
    unfolding hp p snd_conv fst_conv append_Nil hg g u i by simp
qed

text \<open>
  C1, amended. For every record \<open>R\<close> with a non-empty \<open>ID\<close>, with the table name
  configured and a storage service that accepts the item and returns it under its key:
  the \<open>POST\<close> of \<open>R\<close>'s JSON object is answered 201 after one \<open>PutItem\<close>, the \<open>GET\<close> with
  \<open>id = ID R\<close> is answered 200 after one \<open>GetItem\<close>, with the JSON object of \<open>R\<close> as body,
  and that body decodes to \<open>R\<close>.
\<close>

theorem write_then_read_roundtrip:
  assumes "Method post = ''POST''" and "ReqBody post = Some (Marshal_Car R)"
    and "Method get = ''GET''" and "lookup_string (QueryStringParameters get) ''id'' = ID R"
    and "ID R \<noteq> []"
    and "os_Getenv env ''TABLE_NAME'' = t" and "t \<noteq> []"
    and "PutItem db t (Car_item R) s = (None, s')"
    and "GetItem db t [''ID'' \<mapsto> AttributeValueMemberS (ID R)] s' = (Inr (Some (Car_item R)), s'')"
  shows "handler db env post (s, tr) =
           (Inr \<lparr>StatusCode = 201, Body = Plain (''item '' @ ID R @ '' created''),
                 Headers = [''Content-Type'' \<mapsto> ''text/plain'']\<rparr>,
            (s', tr @ [PutItemCall t (Car_item R)]))
       \<and> handler db env get (s', tr @ [PutItemCall t (Car_item R)]) =
           (Inr \<lparr>StatusCode = 200, Body = Marshalled (Marshal_Car R),
                 Headers = [''Content-Type'' \<mapsto> ''application/json'']\<rparr>,
            (s'', tr @ [PutItemCall t (Car_item R),
                        GetItemCall t [''ID'' \<mapsto> AttributeValueMemberS (ID R)]]))
       \<and> Unmarshal_Car (Some (Marshal_Car R)) = (R, None)"
  using assms handlePost_Marshal_Car [of post R env t db s s' tr]
    handleGet_Car_item [of get "ID R" env t db s' R s'' "tr @ [PutItemCall t (Car_item R)]"]
  by (simp add: handler_def Unmarshal_Marshal_Car)

text \<open>
  The scenario of the specification: \<open>POST {"id":"c1","make":"Toyota","model":"Corolla",
  "year":2020}\<close>, then \<open>GET ?id=c1\<close>.
\<close>

theorem write_then_read_roundtrip_witness:
  "handler mem_db table_env (post_request (Some (Marshal_Car corolla))) (no_tables, []) =
     (Inr \<lparr>StatusCode = 201, Body = Plain ''item c1 created'',
           Headers = [''Content-Type'' \<mapsto> ''text/plain'']\<rparr>,
      (corolla_tables, [PutItemCall ''MyItems'' (Car_item corolla)]))
   \<and> handler mem_db table_env (get_request [''id'' \<mapsto> ''c1''])
       (corolla_tables, [PutItemCall ''MyItems'' (Car_item corolla)]) =
     (Inr \<lparr>StatusCode = 200,
           Body = Marshalled
             (JObject [(''id'', JString ''c1''), (''make'', JString ''Toyota''),
                       (''model'', JString ''Corolla''), (''year'', JNumber ''2020'')]),
           Headers = [''Content-Type'' \<mapsto> ''application/json'']\<rparr>,
      (corolla_tables,
       [PutItemCall ''MyItems'' (Car_item corolla),
        GetItemCall ''MyItems'' [''ID'' \<mapsto> AttributeValueMemberS ''c1'']]))
   \<and> Unmarshal_Car
        (Some (JObject [(''id'', JString ''c1''), (''make'', JString ''Toyota''),
                        (''model'', JString ''Corolla''), (''year'', JNumber ''2020'')])) =
      (corolla, None)"
proof -
  have put: "PutItem mem_db ''MyItems'' (Car_item corolla) no_tables = (None, corolla_tables)"
    by (simp add: mem_db_def mem_PutItem_def Car_item_def corolla_def no_tables_def
        corolla_tables_def)
  have get: "GetItem mem_db ''MyItems'' [''ID'' \<mapsto> AttributeValueMemberS (ID corolla)]
       corolla_tables = (Inr (Some (Car_item corolla)), corolla_tables)"
    by (simp add: mem_db_def mem_GetItem_def corolla_def corolla_tables_def)
  have idc: "ID corolla = ''c1''" by (simp add: corolla_def)
  have rt: "handler mem_db table_env (post_request (Some (Marshal_Car corolla))) (no_tables, []) =
           (Inr \<lparr>StatusCode = 201, Body = Plain (''item '' @ ID corolla @ '' created''),
                 Headers = [''Content-Type'' \<mapsto> ''text/plain'']\<rparr>,
            (corolla_tables, [] @ [PutItemCall ''MyItems'' (Car_item corolla)]))
       \<and> handler mem_db table_env (get_request [''id'' \<mapsto> ''c1''])
           (corolla_tables, [] @ [PutItemCall ''MyItems'' (Car_item corolla)]) =
           (Inr \<lparr>StatusCode = 200, Body = Marshalled (Marshal_Car corolla),
                 Headers = [''Content-Type'' \<mapsto> ''application/json'']\<rparr>,
            (corolla_tables, [] @ [PutItemCall ''MyItems'' (Car_item corolla),
                        GetItemCall ''MyItems'' [''ID'' \<mapsto> AttributeValueMemberS (ID corolla)]]))
       \<and> Unmarshal_Car (Some (Marshal_Car corolla)) = (corolla, None)"
    by (rule write_then_read_roundtrip [OF _ _ _ _ _ table_env_name _ put get])
       (simp_all add: post_request_def get_request_def lookup_string_def corolla_def)
  show ?thesis
    using rt by (simp add: idc Marshal_Car_corolla)
qed

subsection \<open>C2: a body without a usable \<open>year\<close>\<close>

text \<open>
  C2, as stated, fails: the decoder reports no error for a field that is absent from
  the object, nor for one whose value is \<open>null\<close>; the field keeps its zero value. The body
  \<open>{"id":"c1","make":"Toyota","model":"Corolla"}\<close>, and the same body with
  \<open>"year":null\<close>, are answered 201 after a \<open>PutItem\<close> of the record with \<open>Year\<close> 0.
\<close>

theorem post_without_year_counterexample:
  "handler mem_db table_env (post_request (Some no_year_body)) (no_tables, []) =
     (Inr \<lparr>StatusCode = 201, Body = Plain ''item c1 created'',
           Headers = [''Content-Type'' \<mapsto> ''text/plain'']\<rparr>,
      (no_tables(''MyItems'' := [(''c1'', Car_item corolla_0)]),
       [PutItemCall ''MyItems'' (Car_item corolla_0)]))
   \<and> handler mem_db table_env (post_request (Some null_year_body)) (no_tables, []) =
     (Inr \<lparr>StatusCode = 201, Body = Plain ''item c1 created'',
           Headers = [''Content-Type'' \<mapsto> ''text/plain'']\<rparr>,
      (no_tables(''MyItems'' := [(''c1'', Car_item corolla_0)]),
       [PutItemCall ''MyItems'' (Car_item corolla_0)]))
   \<and> Car_item corolla_0 ''Year'' = Some (AttributeValueMemberN ''0'')"
  (is "?A \<and> ?B \<and> ?C")
proof -
  have u1: "Unmarshal_Car (ReqBody (post_request (Some no_year_body))) = (corolla_0, None)"
    by (simp add: post_request_def no_year_body_def Unmarshal_Car_def decode_member_def
        find_field_tags zero_Car_def corolla_0_def)
  have u2: "Unmarshal_Car (ReqBody (post_request (Some null_year_body))) = (corolla_0, None)"
    by (simp add: post_request_def null_year_body_def Unmarshal_Car_def decode_member_def
        find_field_tags zero_Car_def corolla_0_def)
  have put: "PutItem mem_db ''MyItems'' (Car_item corolla_0) no_tables =
      (None, no_tables(''MyItems'' := [(''c1'', Car_item corolla_0)]))"
    by (simp add: mem_PutItem_Car_item) (simp add: corolla_0_def no_tables_def)
  have i: "ID corolla_0 = ''c1''"
    by (simp add: corolla_0_def)
  have h: "handler mem_db table_env (post_request b) w = handlePost mem_db table_env (post_request b) w"
    for b w by (simp add: handler_def post_request_def)
  have a: ?A
    unfolding h handlePost_decoded [OF u1 table_env_name _ put, simplified] by (simp add: i)
  have b: ?B
    unfolding h handlePost_decoded [OF u2 table_env_name _ put, simplified] by (simp add: i)
  show ?thesis
    using a b Car_item_corolla_0_Year by (intro conjI)
qed

text \<open>
  C2, amended. A \<open>POST\<close> request whose body is a JSON object with a member for \<open>year\<close>
  (the key is the tag or folds to it) whose value is a string, a boolean, an array or
  an object, or a number whose literal is not a 64-bit integer, is answered 400 with the
  text \<open>invalid request body\<close>, and no storage call is made: the state of the service
  and the trace are unchanged.
\<close>

theorem post_year_of_wrong_kind:
  assumes "Method req = ''POST''" and "ReqBody req = Some (JObject ms)"
    and "(k, v) \<in> set ms" and "find_field k = Some ''year''"
    and "v \<noteq> JNull" and "\<And>lit. v = JNumber lit \<Longrightarrow> snd (ParseInt lit) \<noteq> None"
  shows "handler db env req w =
           (Inr \<lparr>StatusCode = 400, Body = Plain ''invalid request body'', Headers = Map.empty\<rparr>, w)"
proof -
  have "decode_int v = Mismatch"
    using assms(5,6) by (rule decode_int_Mismatch)
  then obtain c e where "decode_object ms (zero_Car, None) = (c, Some e)"
    using assms(3,4) decode_object_year_Mismatch by blast
  then have "Unmarshal_Car (ReqBody req) = (c, Some e)"
    using assms(2) by (simp add: Unmarshal_Car_def)
  then show ?thesis
    using assms(1) by (simp add: handler_def handlePost_def respond_def StatusBadRequest_def)
qed

theorem post_year_of_wrong_kind_witness:
  "handler mem_db table_env (post_request (Some text_year_body)) (no_tables, []) =
     (Inr \<lparr>StatusCode = 400, Body = Plain ''invalid request body'', Headers = Map.empty\<rparr>,
      (no_tables, []))"
  by (rule post_year_of_wrong_kind [where k = "''year''" and v = "JString ''2020''"
        and ms = "[(''id'', JString ''c1''), (''make'', JString ''Toyota''),
                   (''model'', JString ''Corolla''), (''year'', JString ''2020'')]"])
     (simp_all add: post_request_def text_year_body_def find_field_tags)

subsection \<open>C5: the second write replaces the first\<close>

text \<open>
  C5, as stated, fails for two records that share the empty \<open>ID\<close>, for the reason C1
  fails: the read by that \<open>ID\<close> is a scan, answered with an array, not with the second
  record.
\<close>

theorem overwrite_empty_ID_counterexample:
  "ID nameless_civic = ID nameless
   \<and> fst (handler mem_db table_env (get_request [''id'' \<mapsto> ID nameless])
        (snd (handler mem_db table_env (post_request (Some (Marshal_Car nameless_civic)))
           (snd (handler mem_db table_env (post_request (Some (Marshal_Car nameless)))
              (no_tables, [])))))) =
     Inr \<lparr>StatusCode = 200, Body = Marshalled (JArray [Marshal_Car nameless_civic]),
          Headers = [''Content-Type'' \<mapsto> ''application/json'']\<rparr>
   \<and> Unmarshal_Car (Some (JArray [Marshal_Car nameless_civic])) =
       (zero_Car, Some UnmarshalTypeError)"
  (is "?A \<and> ?B \<and> ?C")
proof -
  let ?s1 = "no_tables(''MyItems'' := [([], Car_item nameless)])"
  let ?s2 = "no_tables(''MyItems'' := [([], Car_item nameless_civic)])"
  let ?get = "get_request [''id'' \<mapsto> ID nameless]"
  have ids: "ID nameless = []" "ID nameless_civic = []"
    by (simp_all add: nameless_def nameless_civic_def)
  have put1: "PutItem mem_db ''MyItems'' (Car_item nameless) no_tables = (None, ?s1)"
    by (simp add: mem_PutItem_Car_item ids) (simp add: no_tables_def)
  have put2: "PutItem mem_db ''MyItems'' (Car_item nameless_civic) ?s1 = (None, ?s2)"
    by (simp add: mem_PutItem_Car_item ids)
  have p1: "handler mem_db table_env (post_request (Some (Marshal_Car nameless))) (no_tables, []) =
      (Inr \<lparr>StatusCode = 201, Body = Plain (''item '' @ ID nameless @ '' created''),
            Headers = [''Content-Type'' \<mapsto> ''text/plain'']\<rparr>,
       (?s1, [PutItemCall ''MyItems'' (Car_item nameless)]))"
    using handlePost_Marshal_Car [OF _ table_env_name _ put1,
        of "post_request (Some (Marshal_Car nameless))" "[]"]
    by (simp add: handler_POST post_request_def)
  have p2: "handler mem_db table_env (post_request (Some (Marshal_Car nameless_civic)))
        (?s1, [PutItemCall ''MyItems'' (Car_item nameless)]) =
      (Inr \<lparr>StatusCode = 201, Body = Plain (''item '' @ ID nameless_civic @ '' created''),
            Headers = [''Content-Type'' \<mapsto> ''text/plain'']\<rparr>,
       (?s2, [PutItemCall ''MyItems'' (Car_item nameless),
              PutItemCall ''MyItems'' (Car_item nameless_civic)]))"
    using handlePost_Marshal_Car [OF _ table_env_name _ put2,
        of "post_request (Some (Marshal_Car nameless_civic))"
           "[PutItemCall ''MyItems'' (Car_item nameless)]"]
    by (simp add: handler_POST post_request_def)
  have l: "scan_loop [Car_item nameless_civic] [] = Inr [nameless_civic]"
    using year_of_Car_item [of nameless_civic] item_Car_Car_item [of nameless_civic] by simp
  have sc: "Scan mem_db ''MyItems'' ?s2 = (Inr [Car_item nameless_civic], ?s2)"
    by (simp add: mem_db_def mem_Scan_def)
  have g: "handler mem_db table_env ?get
        (?s2, [PutItemCall ''MyItems'' (Car_item nameless),
               PutItemCall ''MyItems'' (Car_item nameless_civic)]) =
      (Inr \<lparr>StatusCode = 200, Body = Marshalled (JArray (map Marshal_Car [nameless_civic])),
            Headers = [''Content-Type'' \<mapsto> ''application/json'']\<rparr>,
       (?s2, [PutItemCall ''MyItems'' (Car_item nameless),
              PutItemCall ''MyItems'' (Car_item nameless_civic)] @ [ScanCall ''MyItems'']))"
    using handleGet_scan [OF _ table_env_name _ sc l, of ?get]
    by (simp add: handler_GET get_request_def lookup_string_def ids)
  have b: ?B
    unfolding p1 snd_conv p2 g fst_conv by simp
  have c: ?C
    by (simp add: Unmarshal_Car_def)
  show ?thesis
    using ids b c by simp
qed

text \<open>
  C5, amended. For every two records \<open>A\<close> and \<open>B\<close> that share a non-empty \<open>ID\<close>, with the
  table name configured, on the table service: after the write of \<open>A\<close> and the write of
  \<open>B\<close> (both answered 201, each one \<open>PutItem\<close> of the full item, with no read before
  it), the read by the \<open>ID\<close> is answered 200 with the JSON object of \<open>B\<close>, which decodes
  to \<open>B\<close>; the table then holds the item of \<open>B\<close> under the key, and nothing of \<open>A\<close>.
\<close>

theorem second_write_replaces_first:
  assumes "Method postA = ''POST''" and "ReqBody postA = Some (Marshal_Car A)"
    and "Method postB = ''POST''" and "ReqBody postB = Some (Marshal_Car B)"
    and "Method get = ''GET''" and "lookup_string (QueryStringParameters get) ''id'' = ID A"
    and "ID B = ID A" and "ID A \<noteq> []"
    and "os_Getenv env ''TABLE_NAME'' = t" and "t \<noteq> []"
  shows "fst (handler mem_db env postA (s, [])) =
           Inr \<lparr>StatusCode = 201, Body = Plain (''item '' @ ID A @ '' created''),
                Headers = [''Content-Type'' \<mapsto> ''text/plain'']\<rparr>
       \<and> fst (handler mem_db env postB (snd (handler mem_db env postA (s, [])))) =
           Inr \<lparr>StatusCode = 201, Body = Plain (''item '' @ ID B @ '' created''),
                Headers = [''Content-Type'' \<mapsto> ''text/plain'']\<rparr>
       \<and> handler mem_db env get
            (snd (handler mem_db env postB (snd (handler mem_db env postA (s, []))))) =
           (Inr \<lparr>StatusCode = 200, Body = Marshalled (Marshal_Car B),
                 Headers = [''Content-Type'' \<mapsto> ''application/json'']\<rparr>,
            (s(t := AList.update (ID A) (Car_item B) (s t)),
             [PutItemCall t (Car_item A), PutItemCall t (Car_item B),
              GetItemCall t [''ID'' \<mapsto> AttributeValueMemberS (ID A)]]))
       \<and> Unmarshal_Car (Some (Marshal_Car B)) = (B, None)"
proof -
  let ?s1 = "s(t := AList.update (ID A) (Car_item A) (s t))"
  let ?s2 = "s(t := AList.update (ID A) (Car_item B) (s t))"
  have pa: "handler mem_db env postA (s, []) =
      (Inr \<lparr>StatusCode = 201, Body = Plain (''item '' @ ID A @ '' created''),
            Headers = [''Content-Type'' \<mapsto> ''text/plain'']\<rparr>,
       (?s1, [PutItemCall t (Car_item A)]))"
    using handlePost_Marshal_Car [OF assms(2) assms(9) assms(10) mem_PutItem_Car_item, of s "[]"]
    by (simp add: handler_POST [OF assms(1)])
  have s2: "s(t := AList.update (ID B) (Car_item B) (AList.update (ID A) (Car_item A) (s t))) = ?s2"
    by (simp add: assms(7) update_update_same)
  have pb: "handler mem_db env postB (?s1, [PutItemCall t (Car_item A)]) =
      (Inr \<lparr>StatusCode = 201, Body = Plain (''item '' @ ID B @ '' created''),
            Headers = [''Content-Type'' \<mapsto> ''text/plain'']\<rparr>,
       (?s2, [PutItemCall t (Car_item A), PutItemCall t (Car_item B)]))"
    using handlePost_Marshal_Car [OF assms(4) assms(9) assms(10) mem_PutItem_Car_item,
        of ?s1 "[PutItemCall t (Car_item A)]"]
    by (simp add: handler_POST [OF assms(3)] s2)
  have gi: "GetItem mem_db t [''ID'' \<mapsto> AttributeValueMemberS (ID A)] ?s2 =
      (Inr (Some (Car_item B)), ?s2)"
    by (rule mem_GetItem_updated)
  have g: "handler mem_db env get (?s2, [PutItemCall t (Car_item A), PutItemCall t (Car_item B)]) =
      (Inr \<lparr>StatusCode = 200, Body = Marshalled (Marshal_Car B),
            Headers = [''Content-Type'' \<mapsto> ''application/json'']\<rparr>,
       (?s2, [PutItemCall t (Car_item A), PutItemCall t (Car_item B),
              GetItemCall t [''ID'' \<mapsto> AttributeValueMemberS (ID A)]]))"
    using handleGet_Car_item [OF assms(6) assms(8) assms(9) assms(10) gi,
        of "[PutItemCall t (Car_item A), PutItemCall t (Car_item B)]"]
    by (simp add: handler_GET [OF assms(5)])
  show ?thesis
    unfolding pa snd_conv fst_conv pb g by (simp add: Unmarshal_Marshal_Car)
qed

theorem second_write_replaces_first_witness:
  "handler mem_db table_env (get_request [''id'' \<mapsto> ''c1''])
     (snd (handler mem_db table_env (post_request (Some (Marshal_Car civic)))
        (snd (handler mem_db table_env (post_request (Some (Marshal_Car corolla)))
           (no_tables, []))))) =
     (Inr \<lparr>StatusCode = 200, Body = Marshalled (Marshal_Car civic),
           Headers = [''Content-Type'' \<mapsto> ''application/json'']\<rparr>,
      (no_tables(''MyItems'' := [(''c1'', Car_item civic)]),
       [PutItemCall ''MyItems'' (Car_item corolla), PutItemCall ''MyItems'' (Car_item civic),
        GetItemCall ''MyItems'' [''ID'' \<mapsto> AttributeValueMemberS ''c1'']]))
   \<and> Unmarshal_Car (Some (Marshal_Car civic)) = (civic, None)"
proof -
  have ids: "ID civic = ID corolla" "ID corolla \<noteq> []" "ID corolla = ''c1''"
    by (simp_all add: civic_def corolla_def)
  have "lookup_string (QueryStringParameters (get_request [''id'' \<mapsto> ''c1''])) ''id'' = ID corolla"
    by (simp add: get_request_def lookup_string_def corolla_def)
  from second_write_replaces_first [OF _ _ _ _ _ this ids(1) ids(2) table_env_name,
      of "post_request (Some (Marshal_Car corolla))" "post_request (Some (Marshal_Car civic))"
         no_tables]
  show ?thesis
    by (simp add: post_request_def get_request_def ids(3) no_tables_def)
qed

subsection \<open>C10: members of the body that are not fields\<close>

text \<open>
  C10, as stated, fails: the decoder matches a key to a tag also when they are equal
  only after case folding, so a member named \<open>YEAR\<close> is not ignored. The body of the
  Corolla with the additional member \<open>"YEAR":1999\<close> is stored with year 1999, the body
  without it with year 2020.
\<close>

theorem post_key_in_other_case_counterexample:
  "find_field ''YEAR'' = Some ''year''
   \<and> handler mem_db table_env (post_request (Some upper_YEAR_body)) (no_tables, []) =
     (Inr \<lparr>StatusCode = 201, Body = Plain ''item c1 created'',
           Headers = [''Content-Type'' \<mapsto> ''text/plain'']\<rparr>,
      (no_tables(''MyItems'' := [(''c1'', Car_item corolla_1999)]),
       [PutItemCall ''MyItems'' (Car_item corolla_1999)]))
   \<and> handler mem_db table_env (post_request (Some (Marshal_Car corolla))) (no_tables, []) =
     (Inr \<lparr>StatusCode = 201, Body = Plain ''item c1 created'',
           Headers = [''Content-Type'' \<mapsto> ''text/plain'']\<rparr>,
      (no_tables(''MyItems'' := [(''c1'', Car_item corolla)]),
       [PutItemCall ''MyItems'' (Car_item corolla)]))
   \<and> Car_item corolla_1999 ''Year'' = Some (AttributeValueMemberN ''1999'')
   \<and> Car_item corolla ''Year'' = Some (AttributeValueMemberN ''2020'')"
  (is "?A \<and> ?B \<and> ?C \<and> ?D \<and> ?E")
proof -
  have p: "ParseInt ''2020'' = (2020, None)" "ParseInt ''1999'' = (1999, None)"
    by (simp_all add: ParseInt_def ParseUint_def is_digit_def digit_val_def maxUint64_def)
  have u: "Unmarshal_Car (ReqBody (post_request (Some upper_YEAR_body))) = (corolla_1999, None)"
    by (simp add: post_request_def upper_YEAR_body_def Unmarshal_Car_def decode_member_def
        find_field_tags find_field_YEAR zero_Car_def corolla_1999_def p)
  have put: "PutItem mem_db ''MyItems'' (Car_item corolla_1999) no_tables =
      (None, no_tables(''MyItems'' := [(''c1'', Car_item corolla_1999)]))"
    by (simp add: mem_PutItem_Car_item) (simp add: corolla_1999_def no_tables_def)
  have i: "ID corolla_1999 = ''c1''"
    by (simp add: corolla_1999_def)
  have b: ?B
    using handlePost_decoded [OF u table_env_name _ put, of "[]"]
    by (simp add: handler_POST post_request_def i)
  have c: ?C
    using post_corolla by (simp add: corolla_tables_def)
  have d: ?D
    by (simp add: Car_item_def corolla_1999_def Sprintf_d_def decimal.simps char_of_digit)
  have e: ?E
    by (simp add: Car_item_def corolla_def Sprintf_d_def decimal.simps char_of_digit)
  show ?thesis
    using find_field_YEAR b c d e by (intro conjI)
qed

text \<open>
  C10, amended. For every \<open>POST\<close> request whose body is a JSON object, the members whose
  key is none of the tags \<open>id\<close>, \<open>make\<close>, \<open>model\<close>, \<open>year\<close>, neither exactly nor after case
  folding (\<open>find_field_None_iff\<close>), are ignored: the request has the response and the effect on the storage
  service of the request with these members removed (so they cause no 400 and two
  bodies that differ in such members only are treated alike), and if an item is written
  it is the only storage call and has exactly the attributes \<open>ID\<close>, \<open>Make\<close>, \<open>Model\<close>, \<open>Year\<close>.
\<close>

theorem post_ignores_unmatched_members:
  assumes "Method req = ''POST''" and "ReqBody req = Some (JObject ms)"
  shows "handler db env req w =
           handler db env (req\<lparr>ReqBody := Some (JObject (matched_members ms))\<rparr>) w
       \<and> (snd (snd (handler db env req w)) = snd w
          \<or> (\<exists>c. snd (snd (handler db env req w)) =
                   snd w @ [PutItemCall (os_Getenv env ''TABLE_NAME'') (Car_item c)]
                 \<and> dom (Car_item c) = {''ID'', ''Make'', ''Model'', ''Year''}))"
proof -
  have "Unmarshal_Car (ReqBody req) = Unmarshal_Car (Some (JObject (matched_members ms)))"
    using assms(2) by (simp add: Unmarshal_Car_def decode_object_matched_members)
  then have "handlePost db env req w =
      handlePost db env (req\<lparr>ReqBody := Some (JObject (matched_members ms))\<rparr>) w"
    by (simp add: handlePost_def)
  then show ?thesis
    using assms(1) handlePost_trace [of db env req w]
    by (simp add: handler_def dom_Car_item)
qed

theorem post_ignores_unmatched_members_witness:
  "handler mem_db table_env (post_request (Some extra_fields_body)) (no_tables, []) =
     handler mem_db table_env (post_request (Some (Marshal_Car corolla))) (no_tables, [])
   \<and> handler mem_db table_env (post_request (Some extra_fields_body)) (no_tables, []) =
     (Inr \<lparr>StatusCode = 201, Body = Plain ''item c1 created'',
           Headers = [''Content-Type'' \<mapsto> ''text/plain'']\<rparr>,
      (corolla_tables, [PutItemCall ''MyItems'' (Car_item corolla)]))"
proof -
  let ?ms = "[(''color'', JString ''red''), (''id'', JString ''c1''), (''make'', JString ''Toyota''),
              (''owner'', JObject [(''year'', JString ''x'')]),
              (''model'', JString ''Corolla''), (''year'', JNumber ''2020''),
              (''years'', JArray [JNumber ''1'', JBool True])]"
  have m: "JObject (matched_members ?ms) = Marshal_Car corolla"
    by (simp add: matched_members_def find_field_unmatched find_field_tags Marshal_Car_corolla)
  have r: "(post_request (Some extra_fields_body))\<lparr>ReqBody := Some (Marshal_Car corolla)\<rparr> =
      post_request (Some (Marshal_Car corolla))"
    by (simp add: post_request_def)
  have "handler mem_db table_env (post_request (Some extra_fields_body)) (no_tables, []) =
      handler mem_db table_env (post_request (Some (Marshal_Car corolla))) (no_tables, [])"
    using post_ignores_unmatched_members [of "post_request (Some extra_fields_body)" ?ms
        mem_db table_env "(no_tables, [])"]
    unfolding m r by (simp add: post_request_def extra_fields_body_def)
  then show ?thesis
    by (simp add: post_corolla)
qed

subsection \<open>C3: stored items with a missing or wrongly-typed attribute\<close>




subsection \<open>C4: a year that cannot be decoded\<close>

text \<open>
  C4, as stated, fails on the single-item path for a number-typed \<open>Year\<close> whose text is
  not an integer: the error of \<open>strconv.Atoi\<close> is dropped on this path as on the scan
  path. The stored year \<open>3.14\<close> is read back as 0 and the answer is 200, not 500.
\<close>

theorem year_text_not_integer_counterexample:
  "decimal_year_item ''Year'' = Some (AttributeValueMemberN ''3.14'')
   \<and> Atoi ''3.14'' = (0, Some ErrSyntax)
   \<and> handler mem_db table_env (get_request [''id'' \<mapsto> ''c4'']) (mixed_tables, []) =
     (Inr \<lparr>StatusCode = 200, Body = Marshalled (Marshal_Car (civic_0 ''c4'')),
           Headers = [''Content-Type'' \<mapsto> ''application/json'']\<rparr>,
      (mixed_tables, [GetItemCall ''MyItems'' [''ID'' \<mapsto> AttributeValueMemberS ''c4'']]))
   \<and> Year (civic_0 ''c4'') = 0"
  (is "?A \<and> ?B \<and> ?C \<and> ?D")
proof -
  have a: ?A by (simp add: decimal_year_item_def)
  have m: "mapped_Car decimal_year_item 0 = civic_0 ''c4''"
    by (simp add: mapped_Car_def S_Value_def decimal_year_item_def civic_0_def)
  have c: ?C
    using handleGet_item [OF get_request_fields(3) _ table_env_name _ mixed_GetItem(4), of "[]"]
    by (simp add: handler_GET get_request_fields mixed_year_of item_Car_typed [OF mixed_typed(3)]
        m respond_json_def StatusOK_def)
  have d: ?D by (simp add: civic_0_def)
  show ?thesis
    using a Atoi_decimal_point c d by (intro conjI)
qed

text \<open>
  C4, amended. On the single-item path an item whose \<open>Year\<close> is absent or not
  number-typed is answered 500 with \<open>invalid year field\<close>; on the scan path an item in
  that condition (in a result whose items have string-typed \<open>ID\<close>, \<open>Make\<close> and \<open>Model\<close>) is
  kept, at its position, in the array of the 200 response, with year 0. A number-typed
  \<open>Year\<close> is never answered with that 500. For items whose \<open>ID\<close>, \<open>Make\<close> and \<open>Model\<close> are
  string-typed, the single-item read of an item with a number-typed \<open>Year\<close> is answered
  200 and the scan keeps the item, at its position, in the 200 response; on both paths
  its year is the value \<open>strconv.Atoi\<close> returns for the text, the error dropped: 0 when
  \<open>Atoi\<close> reports a syntax error, the largest or the least 64-bit integer when it reports
  a range error (as for \<open>99999999999999999999.5\<close>).
\<close>

theorem year_decoding_on_both_paths:
  assumes "Method req = ''GET''" and "os_Getenv env ''TABLE_NAME'' = t" and "t \<noteq> []"
  shows
    "(lookup_string (QueryStringParameters req) ''id'' = i \<and> i \<noteq> []
        \<and> GetItem db t [''ID'' \<mapsto> AttributeValueMemberS i] s = (Inr (Some it), s')
        \<and> \<not> is_N (it ''Year'') \<longrightarrow>
      handler db env req (s, tr) =
        (Inr \<lparr>StatusCode = 500, Body = Plain ''invalid year field'', Headers = Map.empty\<rparr>,
         (s', tr @ [GetItemCall t [''ID'' \<mapsto> AttributeValueMemberS i]])))
   \<and> (lookup_string (QueryStringParameters req) ''id'' = i \<and> i \<noteq> []
        \<and> GetItem db t [''ID'' \<mapsto> AttributeValueMemberS i] s = (Inr (Some it), s')
        \<and> it ''Year'' = Some (AttributeValueMemberN v) \<and> strings_typed it \<longrightarrow>
      handler db env req (s, tr) =
        (Inr \<lparr>StatusCode = 200, Body = Marshalled (Marshal_Car (mapped_Car it (fst (Atoi v)))),
              Headers = [''Content-Type'' \<mapsto> ''application/json'']\<rparr>,
         (s', tr @ [GetItemCall t [''ID'' \<mapsto> AttributeValueMemberS i]])))
   \<and> (lookup_string (QueryStringParameters req) ''id'' = i \<and> i \<noteq> []
        \<and> GetItem db t [''ID'' \<mapsto> AttributeValueMemberS i] s = (Inr (Some it), s')
        \<and> it ''Year'' = Some (AttributeValueMemberN v) \<longrightarrow>
      fst (handler db env req (s, tr)) \<noteq>
        Inr \<lparr>StatusCode = 500, Body = Plain ''invalid year field'', Headers = Map.empty\<rparr>)
   \<and> (snd (Atoi v) = Some ErrSyntax \<longrightarrow> fst (Atoi v) = 0)
   \<and> (snd (Atoi v) = Some ErrRange \<longrightarrow>
        fst (Atoi v) = 9223372036854775807 \<or> fst (Atoi v) = - 9223372036854775808)
   \<and> (lookup_string (QueryStringParameters req) ''id'' = []
        \<and> Scan db t s = (Inr (pre @ it # post), s')
        \<and> list_all strings_typed (pre @ it # post) \<and> \<not> is_N (it ''Year'') \<longrightarrow>
      (\<exists>cars. handler db env req (s, tr) =
                (Inr \<lparr>StatusCode = 200, Body = Marshalled (JArray cars),
                      Headers = [''Content-Type'' \<mapsto> ''application/json'']\<rparr>,
                 (s', tr @ [ScanCall t]))
              \<and> length cars = length (pre @ it # post)
              \<and> cars ! length pre = Marshal_Car (mapped_Car it 0)))
   \<and> (lookup_string (QueryStringParameters req) ''id'' = []
        \<and> Scan db t s = (Inr (pre @ it # post), s')
        \<and> list_all strings_typed (pre @ it # post)
        \<and> it ''Year'' = Some (AttributeValueMemberN v) \<longrightarrow>
      (\<exists>cars. handler db env req (s, tr) =
                (Inr \<lparr>StatusCode = 200, Body = Marshalled (JArray cars),
                      Headers = [''Content-Type'' \<mapsto> ''application/json'']\<rparr>,
                 (s', tr @ [ScanCall t]))
              \<and> length cars = length (pre @ it # post)
              \<and> cars ! length pre = Marshal_Car (mapped_Car it (fst (Atoi v)))))"
  (is "?untyped \<and> ?typed \<and> ?not_500 \<and> ?dropped \<and> ?clamped \<and> ?scan \<and> ?scan_typed")
proof -
  let ?items = "pre @ it # post"
  let ?cars = "map (\<lambda>it. Marshal_Car (mapped_Car it (scan_year it))) ?items"
  have a: ?untyped
  proof (intro impI, elim conjE)
    assume l: "lookup_string (QueryStringParameters req) ''id'' = i" and i: "i \<noteq> []"
      and g: "GetItem db t [''ID'' \<mapsto> AttributeValueMemberS i] s = (Inr (Some it), s')"
      and n: "\<not> is_N (it ''Year'')"
    from handleGet_item [OF l i assms(2) assms(3) g, of tr]
    show "handler db env req (s, tr) =
        (Inr \<lparr>StatusCode = 500, Body = Plain ''invalid year field'', Headers = Map.empty\<rparr>,
         (s', tr @ [GetItemCall t [''ID'' \<mapsto> AttributeValueMemberS i]]))"
      by (simp add: handler_GET [OF assms(1)] year_of_not_N [OF n] respond_def
          StatusInternalServerError_def)
  qed
  have b: ?typed
  proof (intro impI, elim conjE)
    assume l: "lookup_string (QueryStringParameters req) ''id'' = i" and i: "i \<noteq> []"
      and g: "GetItem db t [''ID'' \<mapsto> AttributeValueMemberS i] s = (Inr (Some it), s')"
      and y: "it ''Year'' = Some (AttributeValueMemberN v)" and ty: "strings_typed it"
    from handleGet_item [OF l i assms(2) assms(3) g, of tr]
    show "handler db env req (s, tr) =
        (Inr \<lparr>StatusCode = 200, Body = Marshalled (Marshal_Car (mapped_Car it (fst (Atoi v)))),
              Headers = [''Content-Type'' \<mapsto> ''application/json'']\<rparr>,
         (s', tr @ [GetItemCall t [''ID'' \<mapsto> AttributeValueMemberS i]]))"
      by (simp add: handler_GET [OF assms(1)] y year_of_N item_Car_typed [OF ty] respond_json_def
          StatusOK_def)
  qed
  have b': ?not_500
  proof (intro impI, elim conjE)
    assume l: "lookup_string (QueryStringParameters req) ''id'' = i" and i: "i \<noteq> []"
      and g: "GetItem db t [''ID'' \<mapsto> AttributeValueMemberS i] s = (Inr (Some it), s')"
      and y: "it ''Year'' = Some (AttributeValueMemberN v)"
    from handleGet_item [OF l i assms(2) assms(3) g, of tr]
    show "fst (handler db env req (s, tr)) \<noteq>
        Inr \<lparr>StatusCode = 500, Body = Plain ''invalid year field'', Headers = Map.empty\<rparr>"
      by (simp add: handler_GET [OF assms(1)] y year_of_N respond_json_def StatusOK_def
          split: sum.splits)
  qed
  have c: ?dropped
    by (simp add: Atoi_syntax_zero)
  have c': ?clamped
    using Atoi_range_bound [of v] by blast
  have len: "length ?cars = length ?items"
    by simp
  have d: ?scan
  proof (intro impI, elim conjE)
    assume l: "lookup_string (QueryStringParameters req) ''id'' = []"
      and sc: "Scan db t s = (Inr ?items, s')"
      and ty: "list_all strings_typed ?items" and n: "\<not> is_N (it ''Year'')"
    note h = handler_scan_typed [OF assms l sc ty, of tr]
    have nth: "?cars ! length pre = Marshal_Car (mapped_Car it 0)"
      using n by (simp add: nth_append scan_year_not_N)
    show "\<exists>cars. handler db env req (s, tr) =
                (Inr \<lparr>StatusCode = 200, Body = Marshalled (JArray cars),
                      Headers = [''Content-Type'' \<mapsto> ''application/json'']\<rparr>,
                 (s', tr @ [ScanCall t]))
              \<and> length cars = length (pre @ it # post)
              \<and> cars ! length pre = Marshal_Car (mapped_Car it 0)"
      using h len nth by blast
  qed
  have e: ?scan_typed
  proof (intro impI, elim conjE)
    assume l: "lookup_string (QueryStringParameters req) ''id'' = []"
      and sc: "Scan db t s = (Inr ?items, s')"
      and ty: "list_all strings_typed ?items"
      and y: "it ''Year'' = Some (AttributeValueMemberN v)"
    note h = handler_scan_typed [OF assms l sc ty, of tr]
    have nth: "?cars ! length pre = Marshal_Car (mapped_Car it (fst (Atoi v)))"
      using y by (simp add: nth_append scan_year_N)
    show "\<exists>cars. handler db env req (s, tr) =
                (Inr \<lparr>StatusCode = 200, Body = Marshalled (JArray cars),
                      Headers = [''Content-Type'' \<mapsto> ''application/json'']\<rparr>,
                 (s', tr @ [ScanCall t]))
              \<and> length cars = length (pre @ it # post)
              \<and> cars ! length pre = Marshal_Car (mapped_Car it (fst (Atoi v)))"
      using h len nth by blast
  qed
  show ?thesis
    using a b b' c c' d e by (intro conjI)
qed

theorem year_decoding_on_both_paths_witness:
  "handler mem_db table_env (get_request [''id'' \<mapsto> ''c2'']) (mixed_tables, []) =
     (Inr \<lparr>StatusCode = 500, Body = Plain ''invalid year field'', Headers = Map.empty\<rparr>,
      (mixed_tables, [GetItemCall ''MyItems'' [''ID'' \<mapsto> AttributeValueMemberS ''c2'']]))
   \<and> handler mem_db table_env (get_request [''id'' \<mapsto> ''c1'']) (mixed_tables, []) =
     (Inr \<lparr>StatusCode = 200, Body = Marshalled (Marshal_Car corolla),
           Headers = [''Content-Type'' \<mapsto> ''application/json'']\<rparr>,
      (mixed_tables, [GetItemCall ''MyItems'' [''ID'' \<mapsto> AttributeValueMemberS ''c1'']]))
   \<and> snd (Atoi ''3.14'') = Some ErrSyntax \<and> fst (Atoi ''3.14'') = 0
   \<and> (\<exists>cars. handler mem_db table_env (get_request Map.empty) (mixed_tables, []) =
              (Inr \<lparr>StatusCode = 200, Body = Marshalled (JArray cars),
                    Headers = [''Content-Type'' \<mapsto> ''application/json'']\<rparr>,
               (mixed_tables, [ScanCall ''MyItems'']))
            \<and> length cars = 4 \<and> cars ! 1 = Marshal_Car (civic_0 ''c2''))
   \<and> (\<exists>cars. handler mem_db table_env (get_request Map.empty) (mixed_tables, []) =
              (Inr \<lparr>StatusCode = 200, Body = Marshalled (JArray cars),
                    Headers = [''Content-Type'' \<mapsto> ''application/json'']\<rparr>,
               (mixed_tables, [ScanCall ''MyItems'']))
            \<and> length cars = 4 \<and> cars ! 3 = Marshal_Car (civic_0 ''c4''))
   \<and> Atoi ''99999999999999999999.5'' = (9223372036854775807, Some ErrRange)
   \<and> handler mem_db table_env (get_request [''id'' \<mapsto> ''c6'']) (overlong_tables, []) =
     (Inr \<lparr>StatusCode = 200, Body = Marshalled (Marshal_Car civic_max),
           Headers = [''Content-Type'' \<mapsto> ''application/json'']\<rparr>,
      (overlong_tables, [GetItemCall ''MyItems'' [''ID'' \<mapsto> AttributeValueMemberS ''c6'']]))"
  (is "?A \<and> ?B \<and> ?C \<and> ?D \<and> ?E \<and> ?F \<and> ?G \<and> ?H")
proof -
  have n: "\<not> is_N (yearless_item ''Year'')"
    by (simp add: is_N_def yearless_item_def)
  have a: ?A
    using year_decoding_on_both_paths [where req = "get_request [''id'' \<mapsto> ''c2'']"
        and env = table_env and t = "''MyItems''" and db = mem_db and s = mixed_tables
        and s' = mixed_tables and tr = "[]" and i = "''c2''" and it = yearless_item]
      mixed_GetItem(2) n
    by (simp add: get_request_fields table_env_name)
  have b: ?B
    using year_decoding_on_both_paths [where req = "get_request [''id'' \<mapsto> ''c1'']"
        and env = table_env and t = "''MyItems''" and db = mem_db and s = mixed_tables
        and s' = mixed_tables and tr = "[]" and i = "''c1''" and it = "Car_item corolla"
        and v = "Sprintf_d (Year corolla)", THEN conjunct2, THEN conjunct1]
      mixed_GetItem(1) strings_typed_Car_item [of corolla]
    by (simp add: get_request_fields table_env_name mapped_Car_Car_item Atoi_def
        ParseInt_Sprintf_d) (simp add: Car_item_def)
  have c: ?C
    by (simp add: Atoi_decimal_point)
  have d: ?D
    by (simp add: Atoi_decimal_point)
  have m: "mapped_Car yearless_item 0 = civic_0 ''c2''"
    by (simp add: mapped_Car_def S_Value_def yearless_item_def civic_0_def)
  have ty: "list_all strings_typed ([Car_item corolla] @ yearless_item # [text_year_item, decimal_year_item])"
    by (simp add: strings_typed_Car_item mixed_typed)
  have e: ?E
    using year_decoding_on_both_paths [where req = "get_request Map.empty"
        and env = table_env and t = "''MyItems''" and db = mem_db and s = mixed_tables
        and s' = mixed_tables and tr = "[]" and pre = "[Car_item corolla]" and it = yearless_item
        and post = "[text_year_item, decimal_year_item]" and i = "[]" and v = "[]",
        THEN conjunct2, THEN conjunct2, THEN conjunct2, THEN conjunct2, THEN conjunct2,
        THEN conjunct1]
      mixed_Scan ty n
    by (simp add: get_request_fields table_env_name m eval_nat_numeral)
  have m4: "mapped_Car decimal_year_item (fst (Atoi ''3.14'')) = civic_0 ''c4''"
    by (simp add: mapped_Car_def S_Value_def decimal_year_item_def civic_0_def
        Atoi_decimal_point)
  have y4: "decimal_year_item ''Year'' = Some (AttributeValueMemberN ''3.14'')"
    by (simp add: decimal_year_item_def)
  have ty4: "list_all strings_typed
      ([Car_item corolla, yearless_item, text_year_item] @ decimal_year_item # [])"
    by (simp add: strings_typed_Car_item mixed_typed)
  have f: ?F
    using year_decoding_on_both_paths [where req = "get_request Map.empty"
        and env = table_env and t = "''MyItems''" and db = mem_db and s = mixed_tables
        and s' = mixed_tables and tr = "[]"
        and pre = "[Car_item corolla, yearless_item, text_year_item]" and it = decimal_year_item
        and post = "[]" and i = "[]" and v = "''3.14''",
        THEN conjunct2, THEN conjunct2, THEN conjunct2, THEN conjunct2, THEN conjunct2,
        THEN conjunct2]
      mixed_Scan ty4 y4
    by (simp add: get_request_fields table_env_name m4 eval_nat_numeral)
  have m6: "mapped_Car overlong_year_item (fst (Atoi ''99999999999999999999.5'')) = civic_max"
    by (simp add: mapped_Car_def S_Value_def overlong_year_item_def civic_max_def Atoi_overlong)
  have y6: "overlong_year_item ''Year'' = Some (AttributeValueMemberN ''99999999999999999999.5'')"
    by (simp add: overlong_year_item_def)
  have h: ?H
    using year_decoding_on_both_paths [where req = "get_request [''id'' \<mapsto> ''c6'']"
        and env = table_env and t = "''MyItems''" and db = mem_db and s = overlong_tables
        and s' = overlong_tables and tr = "[]" and i = "''c6''" and it = overlong_year_item
        and v = "''99999999999999999999.5''", THEN conjunct2, THEN conjunct1]
      overlong_GetItem overlong_typed y6
    by (simp add: get_request_fields table_env_name m6)
  show ?thesis
    using a b c d e f Atoi_overlong h by (intro conjI)
qed

end
